theory Spec2Isabelle
  imports Main
begin

section \<open>JavaScript strings and paths\<close>

text \<open>
  Strings are sequences of code units, modelled as lists. The three string methods that
  \<^verbatim>\<open>compilation.ts\<close> calls are modelled after the ECMAScript definitions, with their
  clamping of out-of-range and negative positions written out.
\<close>

text \<open>\<^verbatim>\<open>s.slice(start, fin)\<close>: a negative position counts from the end, both positions
  are clamped to the string, and an empty range gives the empty string.\<close>

definition slice :: "int \<Rightarrow> int \<Rightarrow> 'a list \<Rightarrow> 'a list" where
  "slice start fin s =
     (let len = int (length s);
          lo = (if start < 0 then max (len + start) 0 else min start len);
          hi = (if fin < 0 then max (len + fin) 0 else min fin len)
      in take (nat (hi - lo)) (drop (nat lo) s))"

text \<open>\<^verbatim>\<open>s.substring(start, fin)\<close>: both positions are clamped to \<open>[0, length]\<close> and
  swapped when they are out of order.\<close>

definition substring :: "int \<Rightarrow> int \<Rightarrow> 'a list \<Rightarrow> 'a list" where
  "substring start fin s =
     (let len = int (length s);
          finalStart = min (max start 0) len;
          finalEnd = min (max fin 0) len;
          lo = min finalStart finalEnd;
          hi = max finalStart finalEnd
      in take (nat (hi - lo)) (drop (nat lo) s))"

text \<open>\<^verbatim>\<open>s.indexOf(c)\<close> for a one-character search string: the position of the first
  occurrence, or \<open>-1\<close>.\<close>

fun indexOf :: "'a list \<Rightarrow> 'a \<Rightarrow> int" where
  "indexOf [] c = - 1"
| "indexOf (x # xs) c =
     (if x = c then 0 else (let i = indexOf xs c in if i < 0 then - 1 else i + 1))"

text \<open>\<^verbatim>\<open>path.basename(p)\<close> of Node's POSIX \<^verbatim>\<open>path\<close> module (a library, not part of
  the repository): trailing separators are ignored and the last portion of the path is
  returned.\<close>

definition basename :: "string \<Rightarrow> string" where
  "basename p =
     rev (takeWhile (\<lambda>c. c \<noteq> CHR ''/'') (dropWhile (\<lambda>c. c = CHR ''/'') (rev p)))"

text \<open>
  \<^verbatim>\<open>
  function pathToContractName(file: string) {
    const sourceName = path.basename(file);
    return sourceName.substring(0, sourceName.indexOf("."));
  }
  \<close>
\<close>

definition pathToContractName :: "string \<Rightarrow> string" where
  "pathToContractName file =
     (let sourceName = basename file
      in substring 0 (indexOf sourceName (CHR ''.'')) sourceName)"

section \<open>Data model\<close>

text \<open>Untyped JavaScript values: the compiler input is an object literal, and the
  optimizer details and the debug data are passed through opaquely.\<close>

datatype jsval =
    JUndefined
  | JNull
  | JBool bool
  | JNum int
  | JStr string
  | JArr "jsval list"
  | JObj "(string \<times> jsval) list"

fun entries :: "jsval \<Rightarrow> (string \<times> jsval) list" where
  "entries (JObj kvs) = kvs"
| "entries _ = []"

definition property :: "string \<Rightarrow> jsval \<Rightarrow> jsval" where
  "property k v = (case map_of (entries v) k of None \<Rightarrow> JUndefined | Some x \<Rightarrow> x)"

text \<open>What the code can raise: the JavaScript runtime's \<^verbatim>\<open>TypeError\<close> (a property read
  on \<^verbatim>\<open>undefined\<close>, \<^verbatim>\<open>Object.keys(undefined)\<close>, iterating \<^verbatim>\<open>undefined\<close>), and whatever
  an external collaborator throws, identified by its name.\<close>

datatype error = TypeError | Thrown string


text \<open>\<^verbatim>\<open>YulConfig\<close> (declared in \<^verbatim>\<open>types.ts\<close>; the two fields the code reads).\<close>

record YulConfig =
  version :: string
  yulDetails :: jsval

record ProjectPathsConfig =
  root :: string
  sources :: string

text \<open>\<^verbatim>\<open>SolcBuild\<close> and the two compiler classes of the host, which share the
  \<^verbatim>\<open>ICompiler\<close> interface.\<close>

record SolcBuild =
  isSolcJs :: bool
  compilerPath :: string

datatype compiler = Compiler string | NativeCompiler string

text \<open>
  The backend's output. The host types it as \<^verbatim>\<open>CompilerOutput\<close>; the fields that the
  code tests for absence or reads past the type (\<^verbatim>\<open>errors\<close>, \<^verbatim>\<open>contracts\<close>, an entry of
  \<^verbatim>\<open>contracts\<close>, \<^verbatim>\<open>deployedBytecode\<close>, \<^verbatim>\<open>functionDebugData\<close>) are optional. An object
  with string keys is an association list in the order \<^verbatim>\<open>Object.keys\<close> enumerates it.
\<close>

record diagnostic =
  severity :: string
  formattedMessage :: string

record CompilerOutputBytecode =
  bc_object :: string
  bc_functionDebugData :: "jsval option"

record CompilerOutputEvm =
  evm_bytecode :: CompilerOutputBytecode
  evm_deployedBytecode :: "CompilerOutputBytecode option"

record CompilerOutputContract =
  evm :: CompilerOutputEvm

record CompilerOutput =
  errors :: "diagnostic list option"
  contracts :: "(string \<times> (string \<times> CompilerOutputContract) list) list option"

text \<open>What \<^verbatim>\<open>yulp.compile\<close> returns: the syntax tree (opaque, of type \<open>'r\<close>) and the
  side tables of declared signatures and topics, each entry carrying its raw text.\<close>

record yulp_entry =
  raw_abi :: string

record 'r yulp_source =
  results :: 'r
  signatures :: "yulp_entry list"
  topics :: "yulp_entry list"

text \<open>The object that \<^verbatim>\<open>_compileYul\<close> and \<^verbatim>\<open>_compileYulp\<close> return. The latter's has no
  \<^verbatim>\<open>functionDebugData\<close> property, so reading it gives \<^verbatim>\<open>undefined\<close> (\<open>None\<close>).\<close>

record compiled =
  c_format :: string
  c_sourceName :: string
  c_abi :: "string list"
  c_bytecode :: string
  c_deployedBytecode :: string
  c_functionDebugData :: "jsval option"

text \<open>The host's \<^verbatim>\<open>Artifact\<close>; \<open>format_tag\<close> is its \<^verbatim>\<open>_format\<close> property.\<close>

record artifact =
  format_tag :: string
  contractName :: string
  sourceName :: string
  abi :: "string list"
  bytecode :: string
  deployedBytecode :: string
  linkReferences :: "(string \<times> (string \<times> (nat \<times> nat) list) list) list"
  deployedLinkReferences :: "(string \<times> (string \<times> (nat \<times> nat) list) list) list"
  functionDebugData :: "jsval option"

section \<open>Effects\<close>

text \<open>
  The external collaborators, as functions of the environment: the file system, the
  \<^verbatim>\<open>path\<close> and \<^verbatim>\<open>glob\<close> libraries, the host task that provides a compiler build, the two
  compiler classes, the host's source-name resolution, the transpiler and the artifact
  store. A collaborator that can throw returns \<open>Inl\<close> of what it throws.
\<close>

record 'r env =
  path_relative_cwd :: "string \<Rightarrow> string"
  path_join :: "string list \<Rightarrow> string"
  glob_sync :: "string \<Rightarrow> string list"
  readFileSync :: "string \<Rightarrow> error + string"
  get_solc_build :: "string \<Rightarrow> error + SolcBuild"
  solcjs_compile :: "string \<Rightarrow> jsval \<Rightarrow> error + CompilerOutput"
  native_compile :: "string \<Rightarrow> jsval \<Rightarrow> error + CompilerOutput"
  localPathToSourceName :: "string \<Rightarrow> string \<Rightarrow> error + string"
  yulp_compile :: "string \<Rightarrow> error + 'r yulp_source"
  yulp_print :: "'r \<Rightarrow> string"
  saveArtifactAndDebugFile :: "artifact \<Rightarrow> error option"

datatype console_call =
    ConsoleLog string
  | ConsoleError string string
  | ConsoleWarn string string

text \<open>
  The observable state of a run: what was written to the console, the inputs the backend
  was called with, the artifacts handed to the artifact store, and the entries registered
  with \<^verbatim>\<open>addValidArtifacts\<close>.
\<close>

record run_state =
  console :: "console_call list"
  backend_calls :: "jsval list"
  saved :: "artifact list"
  valid_artifacts :: "(artifact \<times> string list) list"

definition compile_with :: "'r env \<Rightarrow> compiler \<Rightarrow> jsval \<Rightarrow> error + CompilerOutput" where
  "compile_with env c input =
     (case c of
        Compiler p \<Rightarrow> solcjs_compile env p input
      | NativeCompiler p \<Rightarrow> native_compile env p input)"

text \<open>
  \<^verbatim>\<open>
  async function getCompiler(_yulConfig, run) {
    const solcBuild = await run(TASK_COMPILE_SOLIDITY_GET_SOLC_BUILD,
      { quiet: true, solcVersion: _yulConfig.version });
    let compiler;
    if (solcBuild.isSolcJs) { compiler = new Compiler(solcBuild.compilerPath); }
    else { compiler = new NativeCompiler(solcBuild.compilerPath); }
    return compiler;
  }
  \<close>
\<close>

definition getCompiler :: "'r env \<Rightarrow> YulConfig \<Rightarrow> error + compiler" where
  "getCompiler env yulConfig =
     (case get_solc_build env (version yulConfig) of
        Inl e \<Rightarrow> Inl e
      | Inr solcBuild \<Rightarrow>
          Inr (if isSolcJs solcBuild then Compiler (compilerPath solcBuild)
               else NativeCompiler (compilerPath solcBuild)))"

section \<open>Source discovery\<close>

definition backslashes_to_slashes :: "string \<Rightarrow> string" where
  "backslashes_to_slashes s = map (\<lambda>c. if c = CHR 0x5C then CHR ''/'' else c) s"

definition getYulSources :: "'r env \<Rightarrow> ProjectPathsConfig \<Rightarrow> string list" where
  "getYulSources env paths =
     glob_sync env (backslashes_to_slashes (path_join env [sources paths, ''**'', ''*.yul'']))"

definition getYulpSources :: "'r env \<Rightarrow> ProjectPathsConfig \<Rightarrow> string list" where
  "getYulpSources env paths =
     glob_sync env (backslashes_to_slashes (path_join env [sources paths, ''**'', ''*.yulp'']))"

section \<open>Artifact synthesis\<close>

text \<open>
  \<^verbatim>\<open>
  function getArtifactFromYulOutput(sourceName: string, output: any): Artifact {
    const contractName = pathToContractName(sourceName);
    return {
      _format: "hh-sol-artifact-1",
      contractName,
      sourceName,
      abi: [], // FIXME: create a proper abi which will work with typechain etc...
      bytecode: output.bytecode,
      deployedBytecode: output.deployedBytecode,
      linkReferences: {},
      deployedLinkReferences: {},
      functionDebugData: output.functionDebugData,
    };
  }
  \<close>
\<close>

definition getArtifactFromYulOutput :: "string \<Rightarrow> compiled \<Rightarrow> artifact" where
  "getArtifactFromYulOutput srcName output =
     (let contractName = pathToContractName srcName
      in \<lparr> format_tag = ''hh-sol-artifact-1'',
           contractName = contractName,
           sourceName = srcName,
           abi = [],
           bytecode = c_bytecode output,
           deployedBytecode = c_deployedBytecode output,
           linkReferences = [],
           deployedLinkReferences = [],
           functionDebugData = c_functionDebugData output \<rparr>)"

section \<open>Diagnostics\<close>

text \<open>
  \<^verbatim>\<open>
  function checkCompilationErrors(filename: string, errors: any) {
    for (const error of errors) {
      if (error.severity !== 'warning') {
        console.error('\x1b[31m%s\x1b[0m',
          `hardhat-yul: error compiling ${filename}:\n${error.formattedMessage}`);
      } else {
        console.warn('\x1b[33m%s\x1b[0m',
          `hardhat-yul: warning compiling ${filename}:\n${error.formattedMessage}`)
      }
    }
  }
  \<close>
  The loop body is \<open>report\<close>, the loop is \<open>report_each\<close>; iterating \<^verbatim>\<open>undefined\<close>
  (a backend output without an \<^verbatim>\<open>errors\<close> property) raises a \<^verbatim>\<open>TypeError\<close>.
\<close>

definition report :: "string \<Rightarrow> diagnostic \<Rightarrow> console_call" where
  "report filename error =
     (if severity error \<noteq> ''warning''
      then ConsoleError (CHR 0x1B # ''[31m%s'' @ CHR 0x1B # ''[0m'')
             (''hardhat-yul: error compiling '' @ filename @ '':'' @ [CHR 0x0A]
                @ formattedMessage error)
      else ConsoleWarn (CHR 0x1B # ''[33m%s'' @ CHR 0x1B # ''[0m'')
             (''hardhat-yul: warning compiling '' @ filename @ '':'' @ [CHR 0x0A]
                @ formattedMessage error))"

fun report_each :: "string \<Rightarrow> diagnostic list \<Rightarrow> run_state \<Rightarrow> run_state" where
  "report_each filename [] st = st"
| "report_each filename (error # rest) st =
     report_each filename rest (st\<lparr>console := console st @ [report filename error]\<rparr>)"

definition checkCompilationErrors ::
  "string \<Rightarrow> diagnostic list option \<Rightarrow> run_state \<Rightarrow> (error + unit) \<times> run_state" where
  "checkCompilationErrors filename errs st =
     (case errs of
        None \<Rightarrow> (Inl TypeError, st)
      | Some es \<Rightarrow> (Inr (), report_each filename es st))"

section \<open>Compiling one file\<close>

text \<open>
  \<^verbatim>\<open>
  const contractObjects = Object.keys(output.contracts["Target.yul"]);
  ... output.contracts["Target.yul"][contractObjects[0]]["evm"] ...
  \<close>
  Both compile functions read the selected contract object through this expression. It
  raises a \<^verbatim>\<open>TypeError\<close> when \<^verbatim>\<open>output.contracts\<close> is \<^verbatim>\<open>undefined\<close>, when it has no
  entry \<^verbatim>\<open>"Target.yul"\<close> (\<^verbatim>\<open>Object.keys(undefined)\<close>), and when that entry has no key
  (\<^verbatim>\<open>contractObjects[0]\<close> is \<^verbatim>\<open>undefined\<close>, so is the object read with it, and the read of
  its \<^verbatim>\<open>"evm"\<close> raises).
\<close>

definition selected_contract :: "CompilerOutput \<Rightarrow> error + CompilerOutputContract" where
  "selected_contract output =
     (case contracts output of
        None \<Rightarrow> Inl TypeError
      | Some files \<Rightarrow>
          (case map_of files ''Target.yul'' of
             None \<Rightarrow> Inl TypeError
           | Some target \<Rightarrow>
               (let contractObjects = map fst target
                in case contractObjects of
                     [] \<Rightarrow> Inl TypeError
                   | k # _ \<Rightarrow>
                       (case map_of target k of
                          None \<Rightarrow> Inl TypeError
                        | Some c \<Rightarrow> Inr c))))"

text \<open>
  \<^verbatim>\<open>_compileYul(filepath, filename, _yulConfig, compiler)\<close>, named \<open>u_compileYul\<close> here
  (a name cannot start with an underscore). The input passed to \<^verbatim>\<open>compiler.compile\<close> is
  recorded in \<open>backend_calls\<close>.
\<close>

definition u_compileYul ::
  "'r env \<Rightarrow> string \<Rightarrow> string \<Rightarrow> YulConfig \<Rightarrow> compiler \<Rightarrow> run_state
     \<Rightarrow> (error + compiled) \<times> run_state" where
  "u_compileYul env filepath filename yulConfig compiler st =
     (case readFileSync env filepath of
        Inl e \<Rightarrow> (Inl e, st)
      | Inr data \<Rightarrow>
          (let input =
                 JObj [(''language'', JStr ''Yul''),
                       (''sources'', JObj [(''Target.yul'', JObj [(''content'', JStr data)])]),
                       (''settings'',
                          JObj [(''outputSelection'',
                                   JObj [(''*'', JObj [(''*'', JArr [JStr ''*'']),
                                                       ('''', JArr [JStr ''*''])])]),
                                (''optimizer'',
                                   JObj [(''enabled'', JBool True),
                                         (''runs'', JNum 0),
                                         (''details'',
                                            JObj [(''yul'', JBool True),
                                                  (''yulDetails'', yulDetails yulConfig)])])])];
               st1 = st\<lparr>backend_calls := backend_calls st @ [input]\<rparr>
           in case compile_with env compiler input of
                Inl e \<Rightarrow> (Inl e, st1)
              | Inr output \<Rightarrow>
                  (case checkCompilationErrors filename (errors output) st1 of
                     (Inl e, st2) \<Rightarrow> (Inl e, st2)
                   | (Inr _, st2) \<Rightarrow>
                       (case selected_contract output of
                          Inl e \<Rightarrow> (Inl e, st2)
                        | Inr c \<Rightarrow>
                            (let bytecode = ''0x'' @ bc_object (evm_bytecode (evm c));
                                 deployedBytecode =
                                   (case evm_deployedBytecode (evm c) of
                                      None \<Rightarrow> ''0x''
                                    | Some d \<Rightarrow> ''0x'' @ bc_object d)
                             in (Inr \<lparr> c_format = ''hh-sol-artifact-1'',
                                       c_sourceName = filename,
                                       c_abi = [],
                                       c_bytecode = bytecode,
                                       c_deployedBytecode = deployedBytecode,
                                       c_functionDebugData =
                                         (case evm_deployedBytecode (evm c) of
                                            None \<Rightarrow> None
                                          | Some d \<Rightarrow> bc_functionDebugData d) \<rparr>,
                                 st2))))))"

text \<open>
  \<^verbatim>\<open>_compileYulp(filepath, filename, _yulConfig, compiler)\<close>: the text is transpiled first,
  and the ABI is built from the side tables:
  \<^verbatim>\<open>
  const abi = source.signatures
    .map((v: any) => v.abi.slice(4, -1))
    .concat(source.topics.map((v: any) => v.abi.slice(6, -1)));
  \<close>
\<close>

definition u_compileYulp ::
  "'r env \<Rightarrow> string \<Rightarrow> string \<Rightarrow> YulConfig \<Rightarrow> compiler \<Rightarrow> run_state
     \<Rightarrow> (error + compiled) \<times> run_state" where
  "u_compileYulp env filepath filename yulConfig compiler st =
     (case readFileSync env filepath of
        Inl e \<Rightarrow> (Inl e, st)
      | Inr data \<Rightarrow>
          (case yulp_compile env data of
             Inl e \<Rightarrow> (Inl e, st)
           | Inr source \<Rightarrow>
          (let input =
                 JObj [(''language'', JStr ''Yul''),
                       (''sources'',
                          JObj [(''Target.yul'',
                                   JObj [(''content'', JStr (yulp_print env (results source)))])]),
                       (''settings'',
                          JObj [(''outputSelection'',
                                   JObj [(''*'', JObj [(''*'', JArr [JStr ''*'']),
                                                       ('''', JArr [JStr ''*''])])]),
                                (''optimizer'',
                                   JObj [(''enabled'', JBool True),
                                         (''runs'', JNum 0),
                                         (''details'',
                                            JObj [(''yul'', JBool True),
                                                  (''yulDetails'', yulDetails yulConfig)])])])];
               st1 = st\<lparr>backend_calls := backend_calls st @ [input]\<rparr>
           in case compile_with env compiler input of
                Inl e \<Rightarrow> (Inl e, st1)
              | Inr output \<Rightarrow>
                  (case checkCompilationErrors filename (errors output) st1 of
                     (Inl e, st2) \<Rightarrow> (Inl e, st2)
                   | (Inr _, st2) \<Rightarrow>
                       (case selected_contract output of
                          Inl e \<Rightarrow> (Inl e, st2)
                        | Inr c \<Rightarrow>
                            (let bytecode = ''0x'' @ bc_object (evm_bytecode (evm c));
                                 deployedBytecode =
                                   (case evm_deployedBytecode (evm c) of
                                      None \<Rightarrow> ''0x''
                                    | Some d \<Rightarrow> ''0x'' @ bc_object d);
                                 abi = map (\<lambda>v. slice 4 (- 1) (raw_abi v)) (signatures source)
                                         @ map (\<lambda>v. slice 6 (- 1) (raw_abi v)) (topics source)
                             in (Inr \<lparr> c_format = ''hh-sol-artifact-1'',
                                       c_sourceName = filename,
                                       c_abi = abi,
                                       c_bytecode = bytecode,
                                       c_deployedBytecode = deployedBytecode,
                                       c_functionDebugData = None \<rparr>,
                                 st2)))))))"

section \<open>The run\<close>

text \<open>
  \<^verbatim>\<open>compileYul\<close> and \<^verbatim>\<open>compileYulp\<close> are the same loop over the discovered files and
  differ only in the compile function they call (\<^verbatim>\<open>_compileYul\<close>, \<^verbatim>\<open>_compileYulp\<close>) and in
  the discovery function. The loop body is \<open>compile_file\<close>, the loop \<open>compile_files\<close>;
  both take the compile function as \<open>cf\<close>. The local array \<^verbatim>\<open>allArtifacts\<close> is the
  accumulator, which the model also returns when the loop ends normally. Nothing in the
  loop catches an exception: the first one leaves the loop and the function.
  \<^verbatim>\<open>
  for (const file of files) {
    const cwdPath = path.relative(process.cwd(), file);
    console.log(`Compiling ${cwdPath}...`);
    const compiler = await getCompiler(_yulConfig, run);
    const yulOutput = await _compileYul(cwdPath, file, _yulConfig, compiler);
    const sourceName = await localPathToSourceName(paths.root, file);
    const artifact = getArtifactFromYulOutput(sourceName, yulOutput);
    await artifacts.saveArtifactAndDebugFile(artifact);
    allArtifacts.push({ ...artifact, artifacts: [artifact.contractName] });
    const artifactsImpl = artifacts as ArtifactsImpl;
    artifactsImpl.addValidArtifacts(allArtifacts);
  }
  \<close>
\<close>

type_synonym compile_fun =
  "string \<Rightarrow> string \<Rightarrow> YulConfig \<Rightarrow> compiler \<Rightarrow> run_state \<Rightarrow> (error + compiled) \<times> run_state"

definition compile_file ::
  "'r env \<Rightarrow> YulConfig \<Rightarrow> ProjectPathsConfig \<Rightarrow> compile_fun \<Rightarrow> string
     \<Rightarrow> (artifact \<times> string list) list \<Rightarrow> run_state
     \<Rightarrow> (error + (artifact \<times> string list) list) \<times> run_state" where
  "compile_file env yulConfig paths cf file allArtifacts st =
     (let cwdPath = path_relative_cwd env file;
          st1 = st\<lparr>console := console st @ [ConsoleLog (''Compiling '' @ cwdPath @ ''...'')]\<rparr>
      in case getCompiler env yulConfig of
           Inl e \<Rightarrow> (Inl e, st1)
         | Inr compiler \<Rightarrow>
             (case cf cwdPath file yulConfig compiler st1 of
                (Inl e, st2) \<Rightarrow> (Inl e, st2)
              | (Inr yulOutput, st2) \<Rightarrow>
                  (case localPathToSourceName env (root paths) file of
                     Inl e \<Rightarrow> (Inl e, st2)
                   | Inr srcName \<Rightarrow>
                       (let artifact = getArtifactFromYulOutput srcName yulOutput
                        in case saveArtifactAndDebugFile env artifact of
                             Some e \<Rightarrow> (Inl e, st2)
                           | None \<Rightarrow>
                               (let st3 = st2\<lparr>saved := saved st2 @ [artifact]\<rparr>;
                                    allArtifacts' =
                                      allArtifacts @ [(artifact, [contractName artifact])];
                                    st4 = st3\<lparr>valid_artifacts :=
                                                valid_artifacts st3 @ allArtifacts'\<rparr>
                                in (Inr allArtifacts', st4))))))"

fun compile_files ::
  "'r env \<Rightarrow> YulConfig \<Rightarrow> ProjectPathsConfig \<Rightarrow> compile_fun \<Rightarrow> string list
     \<Rightarrow> (artifact \<times> string list) list \<Rightarrow> run_state
     \<Rightarrow> (error + (artifact \<times> string list) list) \<times> run_state" where
  "compile_files env yulConfig paths cf [] allArtifacts st = (Inr allArtifacts, st)"
| "compile_files env yulConfig paths cf (file # rest) allArtifacts st =
     (case compile_file env yulConfig paths cf file allArtifacts st of
        (Inl e, st') \<Rightarrow> (Inl e, st')
      | (Inr allArtifacts', st') \<Rightarrow> compile_files env yulConfig paths cf rest allArtifacts' st')"

definition compileYul ::
  "'r env \<Rightarrow> YulConfig \<Rightarrow> ProjectPathsConfig \<Rightarrow> run_state
     \<Rightarrow> (error + (artifact \<times> string list) list) \<times> run_state" where
  "compileYul env yulConfig paths st =
     compile_files env yulConfig paths (u_compileYul env) (getYulSources env paths) [] st"

definition compileYulp ::
  "'r env \<Rightarrow> YulConfig \<Rightarrow> ProjectPathsConfig \<Rightarrow> run_state
     \<Rightarrow> (error + (artifact \<times> string list) list) \<times> run_state" where
  "compileYulp env yulConfig paths st =
     compile_files env yulConfig paths (u_compileYulp env) (getYulpSources env paths) [] st"

section \<open>The specification's wording\<close>

text \<open>The compiler input descriptor as the specification writes it, for a source text
  and the caller's \<^verbatim>\<open>yulDetails\<close>:
  \<^verbatim>\<open>{ language: "Yul", sources: { "Target.yul": { content: <text> } },
    settings: { outputSelection: { "*": { "*": ["*"], "": ["*"] } },
                optimizer: { enabled: true, runs: 0,
                             details: { yul: true, yulDetails: <backend-specific> } } } }\<close>\<close>

definition spec_compiler_input :: "string \<Rightarrow> jsval \<Rightarrow> jsval" where
  "spec_compiler_input text details =
     JObj [(''language'', JStr ''Yul''),
           (''sources'', JObj [(''Target.yul'', JObj [(''content'', JStr text)])]),
           (''settings'',
              JObj [(''outputSelection'',
                       JObj [(''*'', JObj [(''*'', JArr [JStr ''*'']), ('''', JArr [JStr ''*''])])]),
                    (''optimizer'',
                       JObj [(''enabled'', JBool True),
                             (''runs'', JNum 0),
                             (''details'',
                                JObj [(''yul'', JBool True), (''yulDetails'', details)])])])]"

text \<open>"File basename without extension", the specification's contract name: the
  basename up to its last dot (the whole basename when it has none).\<close>

definition spec_contract_name :: "string \<Rightarrow> string" where
  "spec_contract_name file =
     (let b = basename file
      in if CHR ''.'' \<in> set b then rev (tl (dropWhile (\<lambda>c. c \<noteq> CHR ''.'') (rev b))) else b)"

text \<open>What the specification says of a well-formed artifact record: the fixed format tag
  and the two empty link-reference maps.\<close>

definition spec_artifact_shape :: "artifact \<Rightarrow> bool" where
  "spec_artifact_shape a \<longleftrightarrow>
     format_tag a = ''hh-sol-artifact-1'' \<and> linkReferences a = [] \<and> deployedLinkReferences a = []"

text \<open>What the specification says of the two bytecode fields of an artifact synthesized
  from the selected contract object: both are \<^verbatim>\<open>0x\<close>-prefixed, the bytecode is \<^verbatim>\<open>0x\<close>
  followed by the object's executable code, and the deployed bytecode is exactly \<^verbatim>\<open>0x\<close>
  when the object has no runtime code.\<close>

definition spec_bytecodes :: "CompilerOutputContract \<Rightarrow> artifact \<Rightarrow> bool" where
  "spec_bytecodes c a \<longleftrightarrow>
     take 2 (bytecode a) = ''0x'' \<and> take 2 (deployedBytecode a) = ''0x''
     \<and> bytecode a = ''0x'' @ bc_object (evm_bytecode (evm c))
     \<and> (evm_deployedBytecode (evm c) = None \<longrightarrow> deployedBytecode a = ''0x'')"

section \<open>A concrete project\<close>

text \<open>
  A small project rooted at \<^verbatim>\<open>/p\<close>, which is also the working directory, used to run the
  model on concrete inputs. The backend is a native build. It reports no contract object
  for the texts \<^verbatim>\<open>zero\<close> and \<^verbatim>\<open>yul:z\<close>, an object without runtime code for the text \<^verbatim>\<open>foo\<close>, and two
  objects, the first with runtime code and debug data, for any other text; every output
  carries one warning and one error diagnostic. The transpiler rejects the text \<^verbatim>\<open>b\<close>
  and reports one signature and one topic for any other text.
\<close>

definition demo_debug :: jsval where
  "demo_debug = JObj [(''add'', JObj [(''entryPoint'', JNum 12)])]"

definition demo_diagnostics :: "diagnostic list" where
  "demo_diagnostics =
     [\<lparr> severity = ''warning'', formattedMessage = ''Warning: Yul is still experimental.'' \<rparr>,
      \<lparr> severity = ''error'', formattedMessage = ''Error: unused.'' \<rparr>]"

definition demo_contract_foo :: CompilerOutputContract where
  "demo_contract_foo =
     \<lparr> evm = \<lparr> evm_bytecode = \<lparr> bc_object = ''6001'', bc_functionDebugData = None \<rparr>,
               evm_deployedBytecode = None \<rparr> \<rparr>"

definition demo_contract_full :: CompilerOutputContract where
  "demo_contract_full =
     \<lparr> evm = \<lparr> evm_bytecode = \<lparr> bc_object = ''6002'', bc_functionDebugData = None \<rparr>,
               evm_deployedBytecode =
                 Some \<lparr> bc_object = ''60'', bc_functionDebugData = Some demo_debug \<rparr> \<rparr> \<rparr>"

definition demo_contract_other :: CompilerOutputContract where
  "demo_contract_other =
     \<lparr> evm = \<lparr> evm_bytecode = \<lparr> bc_object = ''6003'', bc_functionDebugData = None \<rparr>,
               evm_deployedBytecode = None \<rparr> \<rparr>"

definition demo_output :: "(string \<times> CompilerOutputContract) list \<Rightarrow> CompilerOutput" where
  "demo_output objects =
     \<lparr> errors = Some demo_diagnostics, contracts = Some [(''Target.yul'', objects)] \<rparr>"

definition demo_backend :: "jsval \<Rightarrow> error + CompilerOutput" where
  "demo_backend input =
     (let content = property ''content'' (property ''Target.yul'' (property ''sources'' input))
      in Inr (demo_output
               (if content = JStr ''zero'' \<or> content = JStr ''yul:z'' then []
                else if content = JStr ''foo'' then [(''Foo'', demo_contract_foo)]
                else [(''Obj'', demo_contract_full), (''Other'', demo_contract_other)])))"

definition demo_read :: "string \<Rightarrow> error + string" where
  "demo_read p =
     (if p = ''contracts/Foo.yul'' then Inr ''foo''
      else if p = ''contracts/Bar.yul'' then Inr ''bar''
      else if p = ''contracts/Zero.yul'' then Inr ''zero''
      else if p = ''contracts/A.yulp'' then Inr ''a''
      else if p = ''contracts/B.yulp'' then Inr ''b''
      else if p = ''contracts/C.yulp'' then Inr ''c''
      else if p = ''contracts/Z.yulp'' then Inr ''z''
      else Inl (Thrown ''ENOENT''))"

definition demo_yulp :: "string \<Rightarrow> error + string yulp_source" where
  "demo_yulp data =
     (if data = ''b'' then Inl (Thrown ''SyntaxError'')
      else Inr \<lparr> results = data,
                 signatures = [\<lparr> raw_abi = ''sig'' @ [CHR 0x22] @ ''function add()'' @ [CHR 0x22] \<rparr>],
                 topics = [\<lparr> raw_abi = ''topic'' @ [CHR 0x22] @ ''event Done()'' @ [CHR 0x22] \<rparr>] \<rparr>)"

definition demo_env :: "string list \<Rightarrow> string list \<Rightarrow> string env" where
  "demo_env yul_files yulp_files =
     \<lparr> path_relative_cwd = drop 3,
       path_join = (\<lambda>parts. foldr (\<lambda>a b. if b = [] then a else a @ CHR ''/'' # b) parts []),
       glob_sync = (\<lambda>pat. if pat = ''/p/contracts/**/*.yul'' then yul_files
                           else if pat = ''/p/contracts/**/*.yulp'' then yulp_files
                           else []),
       readFileSync = demo_read,
       get_solc_build = (\<lambda>v. Inr \<lparr> isSolcJs = False, compilerPath = ''solc'' \<rparr>),
       solcjs_compile = (\<lambda>p input. Inl (Thrown ''Unavailable'')),
       native_compile = (\<lambda>p input. demo_backend input),
       localPathToSourceName = (\<lambda>r file. Inr (drop (length r + 1) file)),
       yulp_compile = demo_yulp,
       yulp_print = (\<lambda>r. ''yul:'' @ r),
       saveArtifactAndDebugFile = (\<lambda>a. None) \<rparr>"

definition demo_config :: YulConfig where
  "demo_config = \<lparr> version = ''0.8.17'', yulDetails = JObj [(''stackAllocation'', JBool True)] \<rparr>"

definition demo_paths :: ProjectPathsConfig where
  "demo_paths = \<lparr> root = ''/p'', sources = ''/p/contracts'' \<rparr>"

definition empty_state :: run_state where
  "empty_state = \<lparr> console = [], backend_calls = [], saved = [], valid_artifacts = [] \<rparr>"

text \<open>The artifact expected for a file of the project, and the state after the loop body
  has compiled a file whose text (as sent to the backend) is \<open>text\<close>.\<close>

definition demo_artifact ::
  "string \<Rightarrow> string \<Rightarrow> string \<Rightarrow> string \<Rightarrow> jsval option \<Rightarrow> artifact" where
  "demo_artifact name src code deployed debug =
     \<lparr> format_tag = ''hh-sol-artifact-1'', contractName = name, sourceName = src, abi = [],
       bytecode = code, deployedBytecode = deployed, linkReferences = [],
       deployedLinkReferences = [], functionDebugData = debug \<rparr>"

definition demo_attempted :: "string \<Rightarrow> string \<Rightarrow> run_state \<Rightarrow> run_state" where
  "demo_attempted src text st =
     st\<lparr>console := console st
           @ ConsoleLog (''Compiling '' @ drop 3 src @ ''...'') # map (report src) demo_diagnostics,
        backend_calls := backend_calls st @ [spec_compiler_input text (yulDetails demo_config)]\<rparr>"

definition demo_after ::
  "string \<Rightarrow> string \<Rightarrow> artifact \<Rightarrow> (artifact \<times> string list) list \<Rightarrow> run_state \<Rightarrow> run_state" where
  "demo_after src text a acc st =
     (demo_attempted src text st)
       \<lparr>saved := saved st @ [a],
        valid_artifacts := valid_artifacts st @ acc @ [(a, [contractName a])]\<rparr>"

section \<open>String and path lemmas\<close>

lemma indexOf_takeWhile:
  "indexOf s c = (if c \<in> set s then int (length (takeWhile (\<lambda>x. x \<noteq> c) s)) else - 1)"
  by (induction s) (auto simp: Let_def)

lemma substring_0_take:
  "0 \<le> i \<Longrightarrow> i \<le> int (length s) \<Longrightarrow> substring 0 i s = take (nat i) s"
  by (simp add: substring_def Let_def)

lemma substring_0_neg: "i < 0 \<Longrightarrow> substring 0 i s = []"
  by (simp add: substring_def Let_def)

lemma takeWhile_until: "y \<notin> set xs \<Longrightarrow> takeWhile (\<lambda>c. c \<noteq> y) (xs @ y # ys) = xs"
  by (induction xs) auto

lemma dropWhile_until: "y \<notin> set xs \<Longrightarrow> dropWhile (\<lambda>c. c \<noteq> y) (xs @ y # ys) = y # ys"
  by (induction xs) auto

lemma name_before_first_dot:
  "pathToContractName file =
     (if CHR ''.'' \<in> set (basename file)
      then takeWhile (\<lambda>c. c \<noteq> CHR ''.'') (basename file) else [])"
proof (cases "CHR ''.'' \<in> set (basename file)")
  case True
  let ?b = "basename file"
  let ?n = "length (takeWhile (\<lambda>c. c \<noteq> CHR ''.'') ?b)"
  have le: "?n \<le> length ?b"
    by (rule length_takeWhile_le)
  have tk: "take ?n ?b = takeWhile (\<lambda>c. c \<noteq> CHR ''.'') ?b"
    by (rule takeWhile_eq_take [symmetric])
  have "pathToContractName file = substring 0 (int ?n) ?b"
    using True by (simp add: pathToContractName_def indexOf_takeWhile Let_def)
  also have "\<dots> = take ?n ?b"
    using le by (simp add: substring_0_take)
  finally show ?thesis
    using True tk by simp
next
  case False
  then show ?thesis
    by (simp add: pathToContractName_def indexOf_takeWhile substring_0_neg Let_def)
qed

lemma basename_of_file:
  assumes "CHR ''/'' \<notin> set f" and "f \<noteq> []"
  shows "basename (d @ CHR ''/'' # f) = f"
proof -
  have d: "dropWhile (\<lambda>c. c = CHR ''/'') (rev f @ CHR ''/'' # rev d) = rev f @ CHR ''/'' # rev d"
    using assms by (cases "rev f") auto
  have t: "takeWhile (\<lambda>c. c \<noteq> CHR ''/'') (rev f @ CHR ''/'' # rev d) = rev f"
    using assms(1) takeWhile_until [of "CHR ''/''" "rev f" "rev d"] by simp
  show ?thesis
    by (simp add: basename_def d t)
qed

lemma slice_4: "slice 4 (- 1) s = drop 4 (take (length s - 1) s)"
proof -
  have n: "nat (int (length s) - 5) = length s - 5"
    by linarith
  show ?thesis
    by (auto simp add: slice_def Let_def drop_take min_def max_def n)
qed

lemma slice_6: "slice 6 (- 1) s = drop 6 (take (length s - 1) s)"
proof -
  have n: "nat (int (length s) - 7) = length s - 7"
    by linarith
  show ?thesis
    by (auto simp add: slice_def Let_def drop_take min_def max_def n)
qed

lemma single_dot_split:
  assumes "count_list b (CHR ''.'') = 1"
  shows "\<exists>xs ys. b = xs @ CHR ''.'' # ys \<and> CHR ''.'' \<notin> set xs \<and> CHR ''.'' \<notin> set ys"
proof -
  have "CHR ''.'' \<in> set b"
    using assms count_list_0_iff [of b "CHR ''.''"] by auto
  then obtain xs ys where b: "b = xs @ CHR ''.'' # ys" and xs: "CHR ''.'' \<notin> set xs"
    by (auto dest: split_list_first)
  have "count_list xs (CHR ''.'') = 0"
    using xs by (simp add: count_list_0_iff)
  then have "count_list ys (CHR ''.'') = 0"
    using assms b by simp
  then have "CHR ''.'' \<notin> set ys"
    by (simp add: count_list_0_iff)
  with b xs show ?thesis by blast
qed

section \<open>Contract names\<close>

text \<open>
  C10: contract-name derivation truncates at the first dot of the basename, not the
  last. The derived name is the part of the basename before its first dot (so
  \<^verbatim>\<open>Foo.v2.yul\<close> gives \<^verbatim>\<open>Foo\<close>, not \<^verbatim>\<open>Foo.v2\<close>), and it is the empty string for a
  basename without a dot.
\<close>

theorem contract_name_first_dot:
  "pathToContractName file =
     (if CHR ''.'' \<in> set (basename file)
      then takeWhile (\<lambda>c. c \<noteq> CHR ''.'') (basename file) else [])
   \<and> pathToContractName ''contracts/Foo.v2.yul'' = ''Foo''
   \<and> pathToContractName ''contracts/Foo'' = []"
proof -
  have a: "basename ''contracts/Foo.v2.yul'' = ''Foo.v2.yul''"
    by (simp add: basename_def)
  have b: "basename ''contracts/Foo'' = ''Foo''"
    by (simp add: basename_def)
  show ?thesis
    using name_before_first_dot [of "file"]
    by (simp add: name_before_first_dot [of "''contracts/Foo.v2.yul''"]
        name_before_first_dot [of "''contracts/Foo''"] a b)
qed

text \<open>
  C6, as stated, fails: the contract name of \<^verbatim>\<open>contracts/Foo.v2.yul\<close> is \<^verbatim>\<open>Foo\<close>, while
  its basename without its extension is \<^verbatim>\<open>Foo.v2\<close>.
\<close>

theorem contract_name_not_extension_stripped:
  "pathToContractName ''contracts/Foo.v2.yul'' = ''Foo''
   \<and> spec_contract_name ''contracts/Foo.v2.yul'' = ''Foo.v2''
   \<and> pathToContractName ''contracts/Foo.v2.yul'' \<noteq> spec_contract_name ''contracts/Foo.v2.yul''"
proof -
  have a: "basename ''contracts/Foo.v2.yul'' = ''Foo.v2.yul''"
    by (simp add: basename_def)
  show ?thesis
    by (simp add: name_before_first_dot spec_contract_name_def a)
qed

text \<open>
  C6, amended: for every source file whose basename contains exactly one dot, the
  derived contract name is the basename without its extension; for a source path ending
  in \<^verbatim>\<open>contracts/Foo.yul\<close> it is exactly \<^verbatim>\<open>Foo\<close>; and the contract name of an artifact is
  derived from the source name only, whatever the compiled content.
\<close>

theorem contract_name_single_dot:
  "(count_list (basename file) (CHR ''.'') = 1 \<longrightarrow>
      pathToContractName file = spec_contract_name file)
   \<and> pathToContractName (dir @ ''contracts/Foo.yul'') = ''Foo''
   \<and> contractName (getArtifactFromYulOutput file output) = pathToContractName file"
proof -
  have one: "pathToContractName file = spec_contract_name file"
    if h: "count_list (basename file) (CHR ''.'') = 1"
  proof -
    obtain xs ys where b: "basename file = xs @ CHR ''.'' # ys"
      and xs: "CHR ''.'' \<notin> set xs" and ys: "CHR ''.'' \<notin> set ys"
      using single_dot_split [OF h] by blast
    have "dropWhile (\<lambda>c. c \<noteq> CHR ''.'') (rev ys @ CHR ''.'' # rev xs) = CHR ''.'' # rev xs"
      using ys dropWhile_until [of "CHR ''.''" "rev ys" "rev xs"] by simp
    then have "spec_contract_name file = xs"
      by (simp add: spec_contract_name_def b)
    moreover have "pathToContractName file = xs"
      using xs by (simp add: name_before_first_dot b takeWhile_until)
    ultimately show ?thesis by simp
  qed
  have "basename ((dir @ ''contracts'') @ CHR ''/'' # ''Foo.yul'') = ''Foo.yul''"
    by (rule basename_of_file) simp_all
  then have foo: "pathToContractName (dir @ ''contracts/Foo.yul'') = ''Foo''"
    by (simp add: name_before_first_dot)
  have "contractName (getArtifactFromYulOutput file output) = pathToContractName file"
    by (simp add: getArtifactFromYulOutput_def)
  with one foo show ?thesis by blast
qed

theorem contract_name_single_dot_witness:
  "count_list (basename ''/p/contracts/Foo.yul'') (CHR ''.'') = 1
   \<and> pathToContractName ''/p/contracts/Foo.yul'' = ''Foo''
   \<and> spec_contract_name ''/p/contracts/Foo.yul'' = ''Foo''"
proof -
  have b: "basename ''/p/contracts/Foo.yul'' = ''Foo.yul''"
    by (simp add: basename_def)
  then have c: "count_list (basename ''/p/contracts/Foo.yul'') (CHR ''.'') = 1"
    by simp
  have "pathToContractName ''/p/contracts/Foo.yul'' = ''Foo''"
    using contract_name_single_dot [of "''/p/contracts/Foo.yul''" "''/p/''"] by simp
  moreover have "pathToContractName ''/p/contracts/Foo.yul'' = spec_contract_name ''/p/contracts/Foo.yul''"
    using contract_name_single_dot [of "''/p/contracts/Foo.yul''"] c by blast
  ultimately show ?thesis using c by simp
qed

section \<open>Effects of the parts of the pipeline\<close>

lemma report_each_console:
  "report_each filename ds st = st\<lparr>console := console st @ map (report filename) ds\<rparr>"
  by (induction ds arbitrary: st) simp_all

lemma checkCompilationErrors_Some:
  "checkCompilationErrors filename (Some ds) st =
     (Inr (), st\<lparr>console := console st @ map (report filename) ds\<rparr>)"
  by (simp add: checkCompilationErrors_def report_each_console)

lemma checkCompilationErrors_None:
  "checkCompilationErrors filename None st = (Inl TypeError, st)"
  by (simp add: checkCompilationErrors_def)


text \<open>What \<open>u_compileYul\<close> and \<open>u_compileYulp\<close> do once the backend has answered.\<close>

lemma u_compileYul_answered:
  assumes "readFileSync env filepath = Inr data"
    and "compile_with env compiler (spec_compiler_input data (yulDetails yulConfig)) = Inr output"
  shows "u_compileYul env filepath filename yulConfig compiler st =
     (case errors output of
        None \<Rightarrow>
          (Inl TypeError,
           st\<lparr>backend_calls :=
                backend_calls st @ [spec_compiler_input data (yulDetails yulConfig)]\<rparr>)
      | Some ds \<Rightarrow>
          (case selected_contract output of
             Inl e \<Rightarrow> Inl e
           | Inr c \<Rightarrow>
               Inr \<lparr> c_format = ''hh-sol-artifact-1'',
                     c_sourceName = filename,
                     c_abi = [],
                     c_bytecode = ''0x'' @ bc_object (evm_bytecode (evm c)),
                     c_deployedBytecode =
                       (case evm_deployedBytecode (evm c) of
                          None \<Rightarrow> ''0x''
                        | Some d \<Rightarrow> ''0x'' @ bc_object d),
                     c_functionDebugData =
                       (case evm_deployedBytecode (evm c) of
                          None \<Rightarrow> None
                        | Some d \<Rightarrow> bc_functionDebugData d) \<rparr>,
           st\<lparr>backend_calls :=
                backend_calls st @ [spec_compiler_input data (yulDetails yulConfig)],
              console := console st @ map (report filename) ds\<rparr>))"
  using assms
  by (simp add: u_compileYul_def spec_compiler_input_def Let_def checkCompilationErrors_Some
      checkCompilationErrors_None split: option.splits sum.splits)

lemma u_compileYulp_answered:
  assumes "readFileSync env filepath = Inr data"
    and "yulp_compile env data = Inr source"
    and "compile_with env compiler
           (spec_compiler_input (yulp_print env (results source)) (yulDetails yulConfig))
         = Inr output"
  shows "u_compileYulp env filepath filename yulConfig compiler st =
     (case errors output of
        None \<Rightarrow>
          (Inl TypeError,
           st\<lparr>backend_calls :=
                backend_calls st
                  @ [spec_compiler_input (yulp_print env (results source)) (yulDetails yulConfig)]\<rparr>)
      | Some ds \<Rightarrow>
          (case selected_contract output of
             Inl e \<Rightarrow> Inl e
           | Inr c \<Rightarrow>
               Inr \<lparr> c_format = ''hh-sol-artifact-1'',
                     c_sourceName = filename,
                     c_abi = map (\<lambda>v. slice 4 (- 1) (raw_abi v)) (signatures source)
                               @ map (\<lambda>v. slice 6 (- 1) (raw_abi v)) (topics source),
                     c_bytecode = ''0x'' @ bc_object (evm_bytecode (evm c)),
                     c_deployedBytecode =
                       (case evm_deployedBytecode (evm c) of
                          None \<Rightarrow> ''0x''
                        | Some d \<Rightarrow> ''0x'' @ bc_object d),
                     c_functionDebugData = None \<rparr>,
           st\<lparr>backend_calls :=
                backend_calls st
                  @ [spec_compiler_input (yulp_print env (results source)) (yulDetails yulConfig)],
              console := console st @ map (report filename) ds\<rparr>))"
  using assms
  by (simp add: u_compileYulp_def spec_compiler_input_def Let_def checkCompilationErrors_Some
      checkCompilationErrors_None split: option.splits sum.splits)

text \<open>Neither compile function touches the artifact store.\<close>

lemma u_compileYul_saved:
  "saved (snd (u_compileYul env filepath filename yulConfig compiler st)) = saved st"
  by (simp add: u_compileYul_def Let_def checkCompilationErrors_def report_each_console
      split: option.splits sum.splits)

lemma u_compileYulp_saved:
  "saved (snd (u_compileYulp env filepath filename yulConfig compiler st)) = saved st"
  by (simp add: u_compileYulp_def Let_def checkCompilationErrors_def report_each_console
      split: option.splits sum.splits)

lemma u_compileYul_unread:
  "readFileSync env filepath = Inl e \<Longrightarrow>
   u_compileYul env filepath filename yulConfig compiler st = (Inl e, st)"
  by (simp add: u_compileYul_def)

lemma u_compileYul_unanswered:
  assumes "readFileSync env filepath = Inr data"
    and "compile_with env compiler (spec_compiler_input data (yulDetails yulConfig)) = Inl e"
  shows "u_compileYul env filepath filename yulConfig compiler st =
     (Inl e, st\<lparr>backend_calls :=
                  backend_calls st @ [spec_compiler_input data (yulDetails yulConfig)]\<rparr>)"
  using assms by (simp add: u_compileYul_def spec_compiler_input_def Let_def)

lemma u_compileYulp_unread:
  "readFileSync env filepath = Inl e \<Longrightarrow>
   u_compileYulp env filepath filename yulConfig compiler st = (Inl e, st)"
  by (simp add: u_compileYulp_def)

lemma u_compileYulp_untranspiled:
  "readFileSync env filepath = Inr data \<Longrightarrow> yulp_compile env data = Inl e \<Longrightarrow>
   u_compileYulp env filepath filename yulConfig compiler st = (Inl e, st)"
  by (simp add: u_compileYulp_def)

lemma u_compileYulp_unanswered:
  assumes "readFileSync env filepath = Inr data"
    and "yulp_compile env data = Inr source"
    and "compile_with env compiler
           (spec_compiler_input (yulp_print env (results source)) (yulDetails yulConfig))
         = Inl e"
  shows "u_compileYulp env filepath filename yulConfig compiler st =
     (Inl e, st\<lparr>backend_calls :=
                  backend_calls st
                    @ [spec_compiler_input (yulp_print env (results source))
                         (yulDetails yulConfig)]\<rparr>)"
  using assms by (simp add: u_compileYulp_def spec_compiler_input_def Let_def)

section \<open>The compiler input\<close>

text \<open>
  C4: the input passed to the backend is exactly the descriptor of the specification,
  with the file's base-dialect text as content (the file's text for the base dialect, the
  transpiler's printed text for the sugared dialect) and the caller's \<^verbatim>\<open>yulDetails\<close>
  forwarded as they are. What either compile function returns is determined by the
  backend's answer to that descriptor and to nothing else it could have been asked: the
  backend's error is passed on, and its reply is what the diagnostics and the contract
  object are read from. Compiling one file calls the backend at most once (not at all
  when the file cannot be read or transpiled), and the descriptor's sources map has the
  single entry \<^verbatim>\<open>Target.yul\<close>.
\<close>

theorem compiler_input_descriptor:
  "u_compileYul env filepath filename yulConfig compiler st =
     (case readFileSync env filepath of
        Inl e \<Rightarrow> (Inl e, st)
      | Inr data \<Rightarrow>
          (case compile_with env compiler (spec_compiler_input data (yulDetails yulConfig)) of
             Inl e \<Rightarrow>
               (Inl e,
                st\<lparr>backend_calls :=
                     backend_calls st @ [spec_compiler_input data (yulDetails yulConfig)]\<rparr>)
           | Inr reply \<Rightarrow>
               (case errors reply of
                  None \<Rightarrow>
                    (Inl TypeError,
                     st\<lparr>backend_calls :=
                          backend_calls st @ [spec_compiler_input data (yulDetails yulConfig)]\<rparr>)
                | Some ds \<Rightarrow>
                    (case selected_contract reply of
                       Inl e \<Rightarrow> Inl e
                     | Inr c \<Rightarrow>
                         Inr \<lparr> c_format = ''hh-sol-artifact-1'',
                               c_sourceName = filename,
                               c_abi = [],
                               c_bytecode = ''0x'' @ bc_object (evm_bytecode (evm c)),
                               c_deployedBytecode =
                                 (case evm_deployedBytecode (evm c) of
                                    None \<Rightarrow> ''0x''
                                  | Some d \<Rightarrow> ''0x'' @ bc_object d),
                               c_functionDebugData =
                                 (case evm_deployedBytecode (evm c) of
                                    None \<Rightarrow> None
                                  | Some d \<Rightarrow> bc_functionDebugData d) \<rparr>,
                     st\<lparr>backend_calls :=
                          backend_calls st @ [spec_compiler_input data (yulDetails yulConfig)],
                        console := console st @ map (report filename) ds\<rparr>))))
   \<and> u_compileYulp env filepath filename yulConfig compiler st =
     (case readFileSync env filepath of
        Inl e \<Rightarrow> (Inl e, st)
      | Inr data \<Rightarrow>
          (case yulp_compile env data of
             Inl e \<Rightarrow> (Inl e, st)
           | Inr source \<Rightarrow>
               (case compile_with env compiler
                       (spec_compiler_input (yulp_print env (results source))
                          (yulDetails yulConfig)) of
                  Inl e \<Rightarrow>
                    (Inl e,
                     st\<lparr>backend_calls :=
                          backend_calls st
                            @ [spec_compiler_input (yulp_print env (results source))
                                 (yulDetails yulConfig)]\<rparr>)
                | Inr reply \<Rightarrow>
                    (case errors reply of
                       None \<Rightarrow>
                         (Inl TypeError,
                          st\<lparr>backend_calls :=
                               backend_calls st
                                 @ [spec_compiler_input (yulp_print env (results source))
                                      (yulDetails yulConfig)]\<rparr>)
                     | Some ds \<Rightarrow>
                         (case selected_contract reply of
                            Inl e \<Rightarrow> Inl e
                          | Inr c \<Rightarrow>
                              Inr \<lparr> c_format = ''hh-sol-artifact-1'',
                                    c_sourceName = filename,
                                    c_abi =
                                      map (\<lambda>v. slice 4 (- 1) (raw_abi v)) (signatures source)
                                        @ map (\<lambda>v. slice 6 (- 1) (raw_abi v)) (topics source),
                                    c_bytecode = ''0x'' @ bc_object (evm_bytecode (evm c)),
                                    c_deployedBytecode =
                                      (case evm_deployedBytecode (evm c) of
                                         None \<Rightarrow> ''0x''
                                       | Some d \<Rightarrow> ''0x'' @ bc_object d),
                                    c_functionDebugData = None \<rparr>,
                          st\<lparr>backend_calls :=
                               backend_calls st
                                 @ [spec_compiler_input (yulp_print env (results source))
                                      (yulDetails yulConfig)],
                             console := console st @ map (report filename) ds\<rparr>)))))
   \<and> backend_calls (snd (u_compileYul env filepath filename yulConfig compiler st)) =
     backend_calls st @
       (case readFileSync env filepath of
          Inl e \<Rightarrow> []
        | Inr data \<Rightarrow> [spec_compiler_input data (yulDetails yulConfig)])
   \<and> backend_calls (snd (u_compileYulp env filepath filename yulConfig compiler st)) =
     backend_calls st @
       (case readFileSync env filepath of
          Inl e \<Rightarrow> []
        | Inr data \<Rightarrow>
            (case yulp_compile env data of
               Inl e \<Rightarrow> []
             | Inr source \<Rightarrow>
                 [spec_compiler_input (yulp_print env (results source)) (yulDetails yulConfig)]))
   \<and> entries (property ''sources'' (spec_compiler_input text details)) =
       [(''Target.yul'', JObj [(''content'', JStr text)])]
   \<and> property ''language'' (spec_compiler_input text details) = JStr ''Yul''"
proof -
  let ?yul = "u_compileYul env filepath filename yulConfig compiler st"
  let ?yulp = "u_compileYulp env filepath filename yulConfig compiler st"
  have yul: "?yul =
     (case readFileSync env filepath of
        Inl e \<Rightarrow> (Inl e, st)
      | Inr data \<Rightarrow>
          (case compile_with env compiler (spec_compiler_input data (yulDetails yulConfig)) of
             Inl e \<Rightarrow>
               (Inl e,
                st\<lparr>backend_calls :=
                     backend_calls st @ [spec_compiler_input data (yulDetails yulConfig)]\<rparr>)
           | Inr reply \<Rightarrow>
               (case errors reply of
                  None \<Rightarrow>
                    (Inl TypeError,
                     st\<lparr>backend_calls :=
                          backend_calls st @ [spec_compiler_input data (yulDetails yulConfig)]\<rparr>)
                | Some ds \<Rightarrow>
                    (case selected_contract reply of
                       Inl e \<Rightarrow> Inl e
                     | Inr c \<Rightarrow>
                         Inr \<lparr> c_format = ''hh-sol-artifact-1'',
                               c_sourceName = filename,
                               c_abi = [],
                               c_bytecode = ''0x'' @ bc_object (evm_bytecode (evm c)),
                               c_deployedBytecode =
                                 (case evm_deployedBytecode (evm c) of
                                    None \<Rightarrow> ''0x''
                                  | Some d \<Rightarrow> ''0x'' @ bc_object d),
                               c_functionDebugData =
                                 (case evm_deployedBytecode (evm c) of
                                    None \<Rightarrow> None
                                  | Some d \<Rightarrow> bc_functionDebugData d) \<rparr>,
                     st\<lparr>backend_calls :=
                          backend_calls st @ [spec_compiler_input data (yulDetails yulConfig)],
                        console := console st @ map (report filename) ds\<rparr>))))"
  proof (cases "readFileSync env filepath")
    case (Inl e)
    then show ?thesis by (simp add: u_compileYul_unread)
  next
    case (Inr data)
    show ?thesis
    proof (cases "compile_with env compiler (spec_compiler_input data (yulDetails yulConfig))")
      case (Inl e)
      with Inr show ?thesis by (simp add: u_compileYul_unanswered)
    next
      case answered: (Inr reply)
      with Inr show ?thesis
        by (simp add: u_compileYul_answered)
    qed
  qed
  have yulp: "?yulp =
     (case readFileSync env filepath of
        Inl e \<Rightarrow> (Inl e, st)
      | Inr data \<Rightarrow>
          (case yulp_compile env data of
             Inl e \<Rightarrow> (Inl e, st)
           | Inr source \<Rightarrow>
               (case compile_with env compiler
                       (spec_compiler_input (yulp_print env (results source))
                          (yulDetails yulConfig)) of
                  Inl e \<Rightarrow>
                    (Inl e,
                     st\<lparr>backend_calls :=
                          backend_calls st
                            @ [spec_compiler_input (yulp_print env (results source))
                                 (yulDetails yulConfig)]\<rparr>)
                | Inr reply \<Rightarrow>
                    (case errors reply of
                       None \<Rightarrow>
                         (Inl TypeError,
                          st\<lparr>backend_calls :=
                               backend_calls st
                                 @ [spec_compiler_input (yulp_print env (results source))
                                      (yulDetails yulConfig)]\<rparr>)
                     | Some ds \<Rightarrow>
                         (case selected_contract reply of
                            Inl e \<Rightarrow> Inl e
                          | Inr c \<Rightarrow>
                              Inr \<lparr> c_format = ''hh-sol-artifact-1'',
                                    c_sourceName = filename,
                                    c_abi =
                                      map (\<lambda>v. slice 4 (- 1) (raw_abi v)) (signatures source)
                                        @ map (\<lambda>v. slice 6 (- 1) (raw_abi v)) (topics source),
                                    c_bytecode = ''0x'' @ bc_object (evm_bytecode (evm c)),
                                    c_deployedBytecode =
                                      (case evm_deployedBytecode (evm c) of
                                         None \<Rightarrow> ''0x''
                                       | Some d \<Rightarrow> ''0x'' @ bc_object d),
                                    c_functionDebugData = None \<rparr>,
                          st\<lparr>backend_calls :=
                               backend_calls st
                                 @ [spec_compiler_input (yulp_print env (results source))
                                      (yulDetails yulConfig)],
                             console := console st @ map (report filename) ds\<rparr>)))))"
  proof (cases "readFileSync env filepath")
    case (Inl e)
    then show ?thesis by (simp add: u_compileYulp_unread)
  next
    case (Inr data)
    show ?thesis
    proof (cases "yulp_compile env data")
      case (Inl e)
      with Inr show ?thesis by (simp add: u_compileYulp_untranspiled)
    next
      case transpiled: (Inr source)
      show ?thesis
      proof (cases "compile_with env compiler
          (spec_compiler_input (yulp_print env (results source)) (yulDetails yulConfig))")
        case (Inl e)
        with Inr transpiled show ?thesis by (simp add: u_compileYulp_unanswered)
      next
        case answered: (Inr reply)
        with Inr transpiled show ?thesis
          by (simp add: u_compileYulp_answered)
      qed
    qed
  qed
  have calls: "backend_calls (snd ?yul) =
     backend_calls st @
       (case readFileSync env filepath of
          Inl e \<Rightarrow> []
        | Inr data \<Rightarrow> [spec_compiler_input data (yulDetails yulConfig)])"
    unfolding yul by (simp split: sum.splits option.splits)
  have callsp: "backend_calls (snd ?yulp) =
     backend_calls st @
       (case readFileSync env filepath of
          Inl e \<Rightarrow> []
        | Inr data \<Rightarrow>
            (case yulp_compile env data of
               Inl e \<Rightarrow> []
             | Inr source \<Rightarrow>
                 [spec_compiler_input (yulp_print env (results source)) (yulDetails yulConfig)]))"
    unfolding yulp by (simp split: sum.splits option.splits)
  have one: "entries (property ''sources'' (spec_compiler_input text details)) =
       [(''Target.yul'', JObj [(''content'', JStr text)])]"
    by (simp add: spec_compiler_input_def property_def)
  have lang: "property ''language'' (spec_compiler_input text details) = JStr ''Yul''"
    by (simp add: spec_compiler_input_def property_def)
  show ?thesis
    using yul yulp calls callsp one lang by (intro conjI)
qed

section \<open>Bytecode fields\<close>

lemma artifact_of_compiled:
  "bytecode (getArtifactFromYulOutput srcName out) = c_bytecode out"
  "deployedBytecode (getArtifactFromYulOutput srcName out) = c_deployedBytecode out"
  "functionDebugData (getArtifactFromYulOutput srcName out) = c_functionDebugData out"
  "abi (getArtifactFromYulOutput srcName out) = []"
  "sourceName (getArtifactFromYulOutput srcName out) = srcName"
  by (simp_all add: getArtifactFromYulOutput_def)

text \<open>
  C5: every artifact synthesized from a successful compilation, in either dialect, has
  \<^verbatim>\<open>0x\<close>-prefixed bytecode and deployed bytecode; the bytecode is \<^verbatim>\<open>0x\<close> followed by the
  executable code of the contract object selected from the backend's output, and the
  deployed bytecode is exactly \<^verbatim>\<open>0x\<close> when that object has no runtime code.
\<close>

theorem artifact_bytecodes:
  "(fst (u_compileYul env filepath filename yulConfig compiler st) = Inr out \<longrightarrow>
      (\<exists>data output c.
          readFileSync env filepath = Inr data
        \<and> compile_with env compiler (spec_compiler_input data (yulDetails yulConfig)) = Inr output
        \<and> selected_contract output = Inr c
        \<and> spec_bytecodes c (getArtifactFromYulOutput srcName out)))
   \<and> (fst (u_compileYulp env filepath filename yulConfig compiler st) = Inr out \<longrightarrow>
      (\<exists>data source output c.
          readFileSync env filepath = Inr data
        \<and> yulp_compile env data = Inr source
        \<and> compile_with env compiler
            (spec_compiler_input (yulp_print env (results source)) (yulDetails yulConfig))
            = Inr output
        \<and> selected_contract output = Inr c
        \<and> spec_bytecodes c (getArtifactFromYulOutput srcName out)))"
proof (intro conjI impI)
  assume ok: "fst (u_compileYul env filepath filename yulConfig compiler st) = Inr out"
  then obtain data where rd: "readFileSync env filepath = Inr data"
    by (cases "readFileSync env filepath") (simp_all add: u_compileYul_unread)
  from ok rd obtain reply
    where ans: "compile_with env compiler (spec_compiler_input data (yulDetails yulConfig))
                = Inr reply"
    by (cases "compile_with env compiler (spec_compiler_input data (yulDetails yulConfig))")
      (simp_all add: u_compileYul_unanswered)
  from ok obtain c where sel: "selected_contract reply = Inr c"
    and out: "c_bytecode out = ''0x'' @ bc_object (evm_bytecode (evm c))"
             "c_deployedBytecode out =
                (case evm_deployedBytecode (evm c) of
                   None \<Rightarrow> ''0x'' | Some d \<Rightarrow> ''0x'' @ bc_object d)"
    by (auto simp: u_compileYul_answered [OF rd ans] split: option.splits sum.splits)
  have "spec_bytecodes c (getArtifactFromYulOutput srcName out)"
    by (simp add: spec_bytecodes_def artifact_of_compiled out split: option.splits)
  with rd ans sel show "\<exists>data output c.
          readFileSync env filepath = Inr data
        \<and> compile_with env compiler (spec_compiler_input data (yulDetails yulConfig)) = Inr output
        \<and> selected_contract output = Inr c
        \<and> spec_bytecodes c (getArtifactFromYulOutput srcName out)"
    by blast
next
  assume ok: "fst (u_compileYulp env filepath filename yulConfig compiler st) = Inr out"
  then obtain data where rd: "readFileSync env filepath = Inr data"
    by (cases "readFileSync env filepath") (simp_all add: u_compileYulp_unread)
  from ok rd obtain source where tr: "yulp_compile env data = Inr source"
    by (cases "yulp_compile env data") (simp_all add: u_compileYulp_untranspiled)
  from ok rd tr obtain reply
    where ans: "compile_with env compiler
                  (spec_compiler_input (yulp_print env (results source)) (yulDetails yulConfig))
                = Inr reply"
    by (cases "compile_with env compiler
                 (spec_compiler_input (yulp_print env (results source)) (yulDetails yulConfig))")
      (simp_all add: u_compileYulp_unanswered)
  from ok obtain c where sel: "selected_contract reply = Inr c"
    and out: "c_bytecode out = ''0x'' @ bc_object (evm_bytecode (evm c))"
             "c_deployedBytecode out =
                (case evm_deployedBytecode (evm c) of
                   None \<Rightarrow> ''0x'' | Some d \<Rightarrow> ''0x'' @ bc_object d)"
    by (auto simp: u_compileYulp_answered [OF rd tr ans] split: option.splits sum.splits)
  have "spec_bytecodes c (getArtifactFromYulOutput srcName out)"
    by (simp add: spec_bytecodes_def artifact_of_compiled out split: option.splits)
  with rd tr ans sel show "\<exists>data source output c.
          readFileSync env filepath = Inr data
        \<and> yulp_compile env data = Inr source
        \<and> compile_with env compiler
            (spec_compiler_input (yulp_print env (results source)) (yulDetails yulConfig))
            = Inr output
        \<and> selected_contract output = Inr c
        \<and> spec_bytecodes c (getArtifactFromYulOutput srcName out)"
    by blast
qed

section \<open>The concrete project, evaluated\<close>

lemma demo_env_fields:
  "path_relative_cwd (demo_env ys ps) = drop 3"
  "readFileSync (demo_env ys ps) = demo_read"
  "yulp_compile (demo_env ys ps) = demo_yulp"
  "yulp_print (demo_env ys ps) r = ''yul:'' @ r"
  "localPathToSourceName (demo_env ys ps) rt file = Inr (drop (length rt + 1) file)"
  "saveArtifactAndDebugFile (demo_env ys ps) a = None"
  by (simp_all add: demo_env_def)

lemma demo_sources:
  "getYulSources (demo_env ys ps) demo_paths = ys"
  "getYulpSources (demo_env ys ps) demo_paths = ps"
  by (simp_all add: getYulSources_def getYulpSources_def demo_env_def demo_paths_def
      backslashes_to_slashes_def)

lemma demo_getCompiler:
  "getCompiler (demo_env ys ps) demo_config = Inr (NativeCompiler ''solc'')"
  by (simp add: getCompiler_def demo_env_def)

lemma demo_compile_with:
  "compile_with (demo_env ys ps) (NativeCompiler p) (spec_compiler_input text details) =
     Inr (demo_output
            (if text = ''zero'' \<or> text = ''yul:z'' then []
             else if text = ''foo'' then [(''Foo'', demo_contract_foo)]
             else [(''Obj'', demo_contract_full), (''Other'', demo_contract_other)]))"
  by (simp add: compile_with_def demo_env_def demo_backend_def spec_compiler_input_def
      property_def)

lemma demo_output_fields:
  "errors (demo_output objects) = Some demo_diagnostics"
  "selected_contract (demo_output objects) =
     (case objects of [] \<Rightarrow> Inl TypeError | (k, c) # others \<Rightarrow> Inr c)"
  by (simp_all add: demo_output_def selected_contract_def split: list.splits)

lemma demo_yul_Foo:
  "u_compileYul (demo_env ys ps) ''contracts/Foo.yul'' filename demo_config
     (NativeCompiler ''solc'') st =
   (Inr \<lparr> c_format = ''hh-sol-artifact-1'', c_sourceName = filename, c_abi = [],
          c_bytecode = ''0x6001'', c_deployedBytecode = ''0x'',
          c_functionDebugData = None \<rparr>,
    st\<lparr>backend_calls := backend_calls st @ [spec_compiler_input ''foo'' (yulDetails demo_config)],
       console := console st @ map (report filename) demo_diagnostics\<rparr>)"
proof -
  have rd: "readFileSync (demo_env ys ps) ''contracts/Foo.yul'' = Inr ''foo''"
    by (simp add: demo_env_fields demo_read_def)
  have ans: "compile_with (demo_env ys ps) (NativeCompiler ''solc'')
      (spec_compiler_input ''foo'' (yulDetails demo_config))
      = Inr (demo_output [(''Foo'', demo_contract_foo)])"
    by (simp add: demo_compile_with)
  show ?thesis
    by (simp add: u_compileYul_answered [OF rd ans] demo_output_fields demo_contract_foo_def)
qed

lemma demo_yul_Bar:
  "u_compileYul (demo_env ys ps) ''contracts/Bar.yul'' filename demo_config
     (NativeCompiler ''solc'') st =
   (Inr \<lparr> c_format = ''hh-sol-artifact-1'', c_sourceName = filename, c_abi = [],
          c_bytecode = ''0x6002'', c_deployedBytecode = ''0x60'',
          c_functionDebugData = Some demo_debug \<rparr>,
    st\<lparr>backend_calls := backend_calls st @ [spec_compiler_input ''bar'' (yulDetails demo_config)],
       console := console st @ map (report filename) demo_diagnostics\<rparr>)"
proof -
  have rd: "readFileSync (demo_env ys ps) ''contracts/Bar.yul'' = Inr ''bar''"
    by (simp add: demo_env_fields demo_read_def)
  have ans: "compile_with (demo_env ys ps) (NativeCompiler ''solc'')
      (spec_compiler_input ''bar'' (yulDetails demo_config))
      = Inr (demo_output [(''Obj'', demo_contract_full), (''Other'', demo_contract_other)])"
    by (simp add: demo_compile_with)
  show ?thesis
    by (simp add: u_compileYul_answered [OF rd ans] demo_output_fields demo_contract_full_def)
qed

lemma demo_yul_Zero:
  "u_compileYul (demo_env ys ps) ''contracts/Zero.yul'' filename demo_config
     (NativeCompiler ''solc'') st =
   (Inl TypeError,
    st\<lparr>backend_calls := backend_calls st @ [spec_compiler_input ''zero'' (yulDetails demo_config)],
       console := console st @ map (report filename) demo_diagnostics\<rparr>)"
proof -
  have rd: "readFileSync (demo_env ys ps) ''contracts/Zero.yul'' = Inr ''zero''"
    by (simp add: demo_env_fields demo_read_def)
  have ans: "compile_with (demo_env ys ps) (NativeCompiler ''solc'')
      (spec_compiler_input ''zero'' (yulDetails demo_config)) = Inr (demo_output [])"
    by (simp add: demo_compile_with)
  show ?thesis
    by (simp add: u_compileYul_answered [OF rd ans] demo_output_fields)
qed

lemma demo_yulp_good:
  assumes "demo_read filepath = Inr data" and "data \<noteq> ''b''" and "data \<noteq> ''z''"
  shows "u_compileYulp (demo_env ys ps) filepath filename demo_config (NativeCompiler ''solc'') st =
   (Inr \<lparr> c_format = ''hh-sol-artifact-1'', c_sourceName = filename,
          c_abi = [''function add()'', ''event Done()''],
          c_bytecode = ''0x6002'', c_deployedBytecode = ''0x60'',
          c_functionDebugData = None \<rparr>,
    st\<lparr>backend_calls :=
         backend_calls st @ [spec_compiler_input (''yul:'' @ data) (yulDetails demo_config)],
       console := console st @ map (report filename) demo_diagnostics\<rparr>)"
proof -
  let ?source = "\<lparr> results = data,
      signatures = [\<lparr> raw_abi = ''sig'' @ [CHR 0x22] @ ''function add()'' @ [CHR 0x22] \<rparr>],
      topics = [\<lparr> raw_abi = ''topic'' @ [CHR 0x22] @ ''event Done()'' @ [CHR 0x22] \<rparr>] \<rparr>"
  have rd: "readFileSync (demo_env ys ps) filepath = Inr data"
    using assms(1) by (simp add: demo_env_fields)
  have tr: "yulp_compile (demo_env ys ps) data = Inr ?source"
    using assms(2) by (simp add: demo_env_fields demo_yulp_def)
  have ans: "compile_with (demo_env ys ps) (NativeCompiler ''solc'')
      (spec_compiler_input (yulp_print (demo_env ys ps) (results ?source)) (yulDetails demo_config))
      = Inr (demo_output [(''Obj'', demo_contract_full), (''Other'', demo_contract_other)])"
    using assms(3) by (simp add: demo_compile_with demo_env_fields)
  show ?thesis
    by (simp add: u_compileYulp_answered [OF rd tr ans] demo_output_fields
        demo_contract_full_def demo_env_fields slice_4 slice_6)
qed

lemma demo_yulp_B:
  "u_compileYulp (demo_env ys ps) ''contracts/B.yulp'' filename demo_config
     (NativeCompiler ''solc'') st = (Inl (Thrown ''SyntaxError''), st)"
proof -
  have rd: "readFileSync (demo_env ys ps) ''contracts/B.yulp'' = Inr ''b''"
    by (simp add: demo_env_fields demo_read_def)
  have tr: "yulp_compile (demo_env ys ps) ''b'' = Inl (Thrown ''SyntaxError'')"
    by (simp add: demo_env_fields demo_yulp_def)
  show ?thesis
    by (rule u_compileYulp_untranspiled [OF rd tr])
qed

text \<open>
  Witness of C5: the base-dialect file \<^verbatim>\<open>Foo.yul\<close>, whose contract object has no
  runtime code, and the sugared-dialect file \<^verbatim>\<open>A.yulp\<close>, whose object has.
\<close>

theorem artifact_bytecodes_witness:
  "fst (u_compileYul (demo_env [] []) ''contracts/Foo.yul'' ''/p/contracts/Foo.yul''
          demo_config (NativeCompiler ''solc'') empty_state)
     = Inr \<lparr> c_format = ''hh-sol-artifact-1'', c_sourceName = ''/p/contracts/Foo.yul'',
             c_abi = [], c_bytecode = ''0x6001'', c_deployedBytecode = ''0x'',
             c_functionDebugData = None \<rparr>
   \<and> spec_bytecodes demo_contract_foo
       (getArtifactFromYulOutput ''contracts/Foo.yul''
          \<lparr> c_format = ''hh-sol-artifact-1'', c_sourceName = ''/p/contracts/Foo.yul'',
            c_abi = [], c_bytecode = ''0x6001'', c_deployedBytecode = ''0x'',
            c_functionDebugData = None \<rparr>)
   \<and> fst (u_compileYulp (demo_env [] []) ''contracts/A.yulp'' ''/p/contracts/A.yulp''
          demo_config (NativeCompiler ''solc'') empty_state)
     = Inr \<lparr> c_format = ''hh-sol-artifact-1'', c_sourceName = ''/p/contracts/A.yulp'',
             c_abi = [''function add()'', ''event Done()''],
             c_bytecode = ''0x6002'', c_deployedBytecode = ''0x60'',
             c_functionDebugData = None \<rparr>
   \<and> spec_bytecodes demo_contract_full
       (getArtifactFromYulOutput ''contracts/A.yulp''
          \<lparr> c_format = ''hh-sol-artifact-1'', c_sourceName = ''/p/contracts/A.yulp'',
            c_abi = [''function add()'', ''event Done()''],
            c_bytecode = ''0x6002'', c_deployedBytecode = ''0x60'',
            c_functionDebugData = None \<rparr>)"
proof -
  let ?foo = "\<lparr> c_format = ''hh-sol-artifact-1'', c_sourceName = ''/p/contracts/Foo.yul'',
             c_abi = [], c_bytecode = ''0x6001'', c_deployedBytecode = ''0x'',
             c_functionDebugData = None \<rparr>"
  let ?a = "\<lparr> c_format = ''hh-sol-artifact-1'', c_sourceName = ''/p/contracts/A.yulp'',
             c_abi = [''function add()'', ''event Done()''],
             c_bytecode = ''0x6002'', c_deployedBytecode = ''0x60'',
             c_functionDebugData = None \<rparr>"
  have h1: "fst (u_compileYul (demo_env [] []) ''contracts/Foo.yul'' ''/p/contracts/Foo.yul''
          demo_config (NativeCompiler ''solc'') empty_state) = Inr ?foo"
    by (simp add: demo_yul_Foo)
  have h2: "fst (u_compileYulp (demo_env [] []) ''contracts/A.yulp'' ''/p/contracts/A.yulp''
          demo_config (NativeCompiler ''solc'') empty_state) = Inr ?a"
    by (simp add: demo_yulp_good demo_read_def)
  have c1: "spec_bytecodes demo_contract_foo (getArtifactFromYulOutput ''contracts/Foo.yul'' ?foo)"
    using h1 artifact_bytecodes [of "demo_env [] []" "''contracts/Foo.yul''"
        "''/p/contracts/Foo.yul''" demo_config "NativeCompiler ''solc''" empty_state ?foo
        "''contracts/Foo.yul''"]
    by (auto simp: demo_env_fields demo_read_def demo_compile_with demo_output_fields)
  have c2: "spec_bytecodes demo_contract_full (getArtifactFromYulOutput ''contracts/A.yulp'' ?a)"
    using h2 artifact_bytecodes [of "demo_env [] []" "''contracts/A.yulp''"
        "''/p/contracts/A.yulp''" demo_config "NativeCompiler ''solc''" empty_state ?a
        "''contracts/A.yulp''"]
    by (auto simp: demo_env_fields demo_read_def demo_yulp_def demo_compile_with
        demo_output_fields)
  from h1 h2 c1 c2 show ?thesis by simp
qed

section \<open>The loop over the discovered files\<close>

lemma compile_file_success:
  assumes "getCompiler env yulConfig = Inr compiler"
    and "path_relative_cwd env src = cwdPath"
    and "cf cwdPath src yulConfig compiler
           (st\<lparr>console := console st @ [ConsoleLog (''Compiling '' @ cwdPath @ ''...'')]\<rparr>)
         = (Inr out, st2)"
    and "localPathToSourceName env (root paths) src = Inr srcName"
    and "saveArtifactAndDebugFile env (getArtifactFromYulOutput srcName out) = None"
  shows "compile_file env yulConfig paths cf src allArtifacts st =
     (Inr (allArtifacts
             @ [(getArtifactFromYulOutput srcName out,
                 [contractName (getArtifactFromYulOutput srcName out)])]),
      st2\<lparr>saved := saved st2 @ [getArtifactFromYulOutput srcName out],
          valid_artifacts :=
            valid_artifacts st2 @ allArtifacts
              @ [(getArtifactFromYulOutput srcName out,
                  [contractName (getArtifactFromYulOutput srcName out)])]\<rparr>)"
  using assms by (simp add: compile_file_def Let_def)

lemma compile_file_failure:
  assumes "getCompiler env yulConfig = Inr compiler"
    and "path_relative_cwd env src = cwdPath"
    and "cf cwdPath src yulConfig compiler
           (st\<lparr>console := console st @ [ConsoleLog (''Compiling '' @ cwdPath @ ''...'')]\<rparr>)
         = (Inl e, st2)"
  shows "compile_file env yulConfig paths cf src allArtifacts st = (Inl e, st2)"
  using assms by (simp add: compile_file_def Let_def)

text \<open>One pass of the loop body hands at most one artifact to the artifact store, of the
  fixed shape, and none when it fails; the accumulator grows by that artifact.\<close>

lemma compile_file_step:
  assumes cf: "\<And>p f c k s. saved (snd (cf p f c k s)) = saved s"
  shows "\<exists>new. saved (snd (compile_file env yulConfig paths cf src allArtifacts st))
                = saved st @ new
             \<and> list_all spec_artifact_shape new
             \<and> (case fst (compile_file env yulConfig paths cf src allArtifacts st) of
                  Inl e \<Rightarrow> new = []
                | Inr acc \<Rightarrow> acc = allArtifacts @ map (\<lambda>a. (a, [contractName a])) new)"
proof -
  let ?cwd = "path_relative_cwd env src"
  let ?st1 = "st\<lparr>console := console st @ [ConsoleLog (''Compiling '' @ ?cwd @ ''...'')]\<rparr>"
  show ?thesis
  proof (cases "getCompiler env yulConfig")
    case (Inl e)
    then show ?thesis by (simp add: compile_file_def Let_def)
  next
    case (Inr compiler)
    obtain r st2 where run: "cf ?cwd src yulConfig compiler ?st1 = (r, st2)"
      by (cases "cf ?cwd src yulConfig compiler ?st1") blast
    have "saved (snd (cf ?cwd src yulConfig compiler ?st1)) = saved ?st1"
      by (rule cf)
    with run have keep: "saved st2 = saved st"
      by simp
    show ?thesis
    proof (cases r)
      case (Inl e)
      with Inr run keep show ?thesis by (simp add: compile_file_def Let_def)
    next
      case compiled: (Inr out)
      show ?thesis
      proof (cases "localPathToSourceName env (root paths) src")
        case (Inl e)
        with Inr run keep compiled show ?thesis by (simp add: compile_file_def Let_def)
      next
        case named: (Inr srcName)
        show ?thesis
        proof (cases "saveArtifactAndDebugFile env (getArtifactFromYulOutput srcName out)")
          case (Some e)
          with Inr run keep compiled named show ?thesis
            by (simp add: compile_file_def Let_def)
        next
          case None
          have shape: "spec_artifact_shape (getArtifactFromYulOutput srcName out)"
            by (simp add: spec_artifact_shape_def getArtifactFromYulOutput_def)
          from Inr run keep compiled named None shape show ?thesis
            by (simp add: compile_file_def Let_def)
        qed
      qed
    qed
  qed
qed

lemma compile_files_steps:
  assumes cf: "\<And>p f c k s. saved (snd (cf p f c k s)) = saved s"
  shows "\<exists>new. saved (snd (compile_files env yulConfig paths cf files allArtifacts st))
                = saved st @ new
             \<and> list_all spec_artifact_shape new
             \<and> (case fst (compile_files env yulConfig paths cf files allArtifacts st) of
                  Inl e \<Rightarrow> True
                | Inr acc \<Rightarrow> acc = allArtifacts @ map (\<lambda>a. (a, [contractName a])) new)"
proof (induction files arbitrary: allArtifacts st)
  case Nil
  show ?case by simp
next
  case (Cons x rest)
  obtain r st1 where one: "compile_file env yulConfig paths cf x allArtifacts st = (r, st1)"
    by (cases "compile_file env yulConfig paths cf x allArtifacts st") blast
  from compile_file_step [where cf = cf and env = env and yulConfig = yulConfig and paths = paths
      and src = x and allArtifacts = allArtifacts and st = st, OF cf] one
  obtain new1 where new1: "saved st1 = saved st @ new1" "list_all spec_artifact_shape new1"
    "case r of Inl e \<Rightarrow> new1 = []
     | Inr acc \<Rightarrow> acc = allArtifacts @ map (\<lambda>a. (a, [contractName a])) new1"
    by auto
  show ?case
  proof (cases r)
    case (Inl e)
    with one new1 show ?thesis by simp
  next
    case (Inr acc)
    from Cons.IH [where allArtifacts = acc and st = st1]
    obtain new2 where new2:
      "saved (snd (compile_files env yulConfig paths cf rest acc st1)) = saved st1 @ new2"
      "list_all spec_artifact_shape new2"
      "case fst (compile_files env yulConfig paths cf rest acc st1) of
         Inl e \<Rightarrow> True
       | Inr acc' \<Rightarrow> acc' = acc @ map (\<lambda>a. (a, [contractName a])) new2"
      by blast
    have "saved (snd (compile_files env yulConfig paths cf (x # rest) allArtifacts st))
            = saved st @ (new1 @ new2)"
      using one Inr new1 new2 by simp
    moreover have "list_all spec_artifact_shape (new1 @ new2)"
      using new1 new2 by simp
    moreover have "case fst (compile_files env yulConfig paths cf (x # rest) allArtifacts st) of
         Inl e \<Rightarrow> True
       | Inr acc' \<Rightarrow> acc' = allArtifacts @ map (\<lambda>a. (a, [contractName a])) (new1 @ new2)"
      using one Inr new1 new2 by (simp split: sum.splits)
    ultimately show ?thesis by blast
  qed
qed

lemma compile_files_append:
  "compile_files env yulConfig paths cf (pre @ post) allArtifacts st =
     (case compile_files env yulConfig paths cf pre allArtifacts st of
        (Inl e, st') \<Rightarrow> (Inl e, st')
      | (Inr acc, st') \<Rightarrow> compile_files env yulConfig paths cf post acc st')"
  by (induction pre arbitrary: allArtifacts st) (simp_all split: prod.splits sum.splits)

text \<open>The first file that fails ends the loop: the files after it are not looked at.\<close>

lemma compile_files_abort:
  assumes "fst (compile_files env yulConfig paths cf pre allArtifacts st) = Inr acc"
    and "fst (compile_file env yulConfig paths cf file acc
                (snd (compile_files env yulConfig paths cf pre allArtifacts st))) = Inl e"
  shows "compile_files env yulConfig paths cf (pre @ file # post) allArtifacts st =
           (Inl e, snd (compile_file env yulConfig paths cf file acc
                          (snd (compile_files env yulConfig paths cf pre allArtifacts st))))"
proof -
  obtain st1 where pre: "compile_files env yulConfig paths cf pre allArtifacts st = (Inr acc, st1)"
    using assms(1) by (cases "compile_files env yulConfig paths cf pre allArtifacts st") simp
  obtain st2 where one: "compile_file env yulConfig paths cf file acc st1 = (Inl e, st2)"
    using assms(2) pre by (cases "compile_file env yulConfig paths cf file acc st1") simp
  show ?thesis
    by (simp add: compile_files_append pre one)
qed

lemma compile_files_abort_saved:
  assumes cf: "\<And>p f c k s. saved (snd (cf p f c k s)) = saved s"
    and "fst (compile_files env yulConfig paths cf pre [] st) = Inr acc"
    and "fst (compile_file env yulConfig paths cf file acc
                (snd (compile_files env yulConfig paths cf pre [] st))) = Inl e"
  shows "saved (snd (compile_file env yulConfig paths cf file acc
                       (snd (compile_files env yulConfig paths cf pre [] st))))
           = saved st @ map fst acc"
proof -
  let ?st1 = "snd (compile_files env yulConfig paths cf pre [] st)"
  from compile_files_steps [where cf = cf and env = env and yulConfig = yulConfig and paths = paths
      and files = pre and allArtifacts = "[]" and st = st, OF cf] assms(2)
  obtain new where new: "saved ?st1 = saved st @ new"
    "acc = map (\<lambda>a. (a, [contractName a])) new"
    by auto
  have acc: "map fst acc = new"
    by (simp add: new(2) comp_def)
  from compile_file_step [where cf = cf and env = env and yulConfig = yulConfig and paths = paths
      and src = "file" and allArtifacts = acc and st = ?st1, OF cf] assms(3)
  have "saved (snd (compile_file env yulConfig paths cf file acc ?st1)) = saved ?st1"
    by auto
  with new(1) acc show ?thesis by simp
qed

section \<open>The loop on the concrete project\<close>

lemma demo_artifact_of:
  "pathToContractName src = name \<Longrightarrow>
   getArtifactFromYulOutput src out =
     demo_artifact name src (c_bytecode out) (c_deployedBytecode out) (c_functionDebugData out)"
  by (simp add: getArtifactFromYulOutput_def demo_artifact_def)

lemma demo_names:
  "pathToContractName ''contracts/Foo.yul'' = ''Foo''"
  "pathToContractName ''contracts/Bar.yul'' = ''Bar''"
  "pathToContractName ''contracts/A.yulp'' = ''A''"
  "pathToContractName ''contracts/C.yulp'' = ''C''"
  by (simp_all add: name_before_first_dot basename_def)

lemma demo_after_fields:
  "saved (demo_after src text a acc st) = saved st @ [a]"
  "saved (demo_attempted src text st) = saved st"
  "console (demo_after src text a acc st) =
     console st @ ConsoleLog (''Compiling '' @ drop 3 src @ ''...'') # map (report src) demo_diagnostics"
  "backend_calls (demo_after src text a acc st) =
     backend_calls st @ [spec_compiler_input text (yulDetails demo_config)]"
  by (simp_all add: demo_after_def demo_attempted_def)

lemma demo_file_ok:
  assumes "cf (drop 3 src) src demo_config (NativeCompiler ''solc'')
             (st\<lparr>console := console st @ [ConsoleLog (''Compiling '' @ drop 3 src @ ''...'')]\<rparr>)
           = (Inr out, st2)"
  shows "compile_file (demo_env ys ps) demo_config demo_paths cf src acc st =
     (Inr (acc @ [(getArtifactFromYulOutput (drop 3 src) out,
                   [contractName (getArtifactFromYulOutput (drop 3 src) out)])]),
      st2\<lparr>saved := saved st2 @ [getArtifactFromYulOutput (drop 3 src) out],
          valid_artifacts :=
            valid_artifacts st2 @ acc
              @ [(getArtifactFromYulOutput (drop 3 src) out,
                  [contractName (getArtifactFromYulOutput (drop 3 src) out)])]\<rparr>)"
proof (rule compile_file_success [where cf = cf, OF demo_getCompiler _ assms])
  show "path_relative_cwd (demo_env ys ps) src = drop 3 src"
    by (simp add: demo_env_fields)
  show "localPathToSourceName (demo_env ys ps) (root demo_paths) src = Inr (drop 3 src)"
    by (simp add: demo_env_fields demo_paths_def numeral_3_eq_3)
  show "saveArtifactAndDebugFile (demo_env ys ps) (getArtifactFromYulOutput (drop 3 src) out) = None"
    by (simp add: demo_env_fields)
qed

lemma demo_file_failed:
  assumes "cf (drop 3 src) src demo_config (NativeCompiler ''solc'')
             (st\<lparr>console := console st @ [ConsoleLog (''Compiling '' @ drop 3 src @ ''...'')]\<rparr>)
           = (Inl e, st2)"
  shows "compile_file (demo_env ys ps) demo_config demo_paths cf src acc st = (Inl e, st2)"
proof (rule compile_file_failure [where cf = cf, OF demo_getCompiler _ assms])
  show "path_relative_cwd (demo_env ys ps) src = drop 3 src"
    by (simp add: demo_env_fields)
qed

lemma demo_file_Foo:
  "compile_file (demo_env ys ps) demo_config demo_paths (u_compileYul (demo_env ys ps))
     ''/p/contracts/Foo.yul'' acc st =
   (Inr (acc @ [(demo_artifact ''Foo'' ''contracts/Foo.yul'' ''0x6001'' ''0x'' None, [''Foo''])]),
    demo_after ''/p/contracts/Foo.yul'' ''foo''
      (demo_artifact ''Foo'' ''contracts/Foo.yul'' ''0x6001'' ''0x'' None) acc st)"
proof -
  have "u_compileYul (demo_env ys ps) (drop 3 ''/p/contracts/Foo.yul'') ''/p/contracts/Foo.yul''
      demo_config (NativeCompiler ''solc'')
      (st\<lparr>console := console st
            @ [ConsoleLog (''Compiling '' @ drop 3 ''/p/contracts/Foo.yul'' @ ''...'')]\<rparr>)
    = (Inr \<lparr> c_format = ''hh-sol-artifact-1'', c_sourceName = ''/p/contracts/Foo.yul'',
             c_abi = [], c_bytecode = ''0x6001'', c_deployedBytecode = ''0x'',
             c_functionDebugData = None \<rparr>,
       demo_attempted ''/p/contracts/Foo.yul'' ''foo'' st)"
    by (simp add: demo_yul_Foo demo_attempted_def)
  from demo_file_ok [where cf = "u_compileYul (demo_env ys ps)", OF this] show ?thesis
    by (simp add: demo_artifact_of [OF demo_names(1)] demo_after_def demo_attempted_def
        demo_artifact_def)
qed

lemma demo_file_Bar:
  "compile_file (demo_env ys ps) demo_config demo_paths (u_compileYul (demo_env ys ps))
     ''/p/contracts/Bar.yul'' acc st =
   (Inr (acc @ [(demo_artifact ''Bar'' ''contracts/Bar.yul'' ''0x6002'' ''0x60'' (Some demo_debug),
                 [''Bar''])]),
    demo_after ''/p/contracts/Bar.yul'' ''bar''
      (demo_artifact ''Bar'' ''contracts/Bar.yul'' ''0x6002'' ''0x60'' (Some demo_debug)) acc st)"
proof -
  have "u_compileYul (demo_env ys ps) (drop 3 ''/p/contracts/Bar.yul'') ''/p/contracts/Bar.yul''
      demo_config (NativeCompiler ''solc'')
      (st\<lparr>console := console st
            @ [ConsoleLog (''Compiling '' @ drop 3 ''/p/contracts/Bar.yul'' @ ''...'')]\<rparr>)
    = (Inr \<lparr> c_format = ''hh-sol-artifact-1'', c_sourceName = ''/p/contracts/Bar.yul'',
             c_abi = [], c_bytecode = ''0x6002'', c_deployedBytecode = ''0x60'',
             c_functionDebugData = Some demo_debug \<rparr>,
       demo_attempted ''/p/contracts/Bar.yul'' ''bar'' st)"
    by (simp add: demo_yul_Bar demo_attempted_def)
  from demo_file_ok [where cf = "u_compileYul (demo_env ys ps)", OF this] show ?thesis
    by (simp add: demo_artifact_of [OF demo_names(2)] demo_after_def demo_attempted_def
        demo_artifact_def)
qed

lemma demo_file_Zero:
  "compile_file (demo_env ys ps) demo_config demo_paths (u_compileYul (demo_env ys ps))
     ''/p/contracts/Zero.yul'' acc st =
   (Inl TypeError, demo_attempted ''/p/contracts/Zero.yul'' ''zero'' st)"
proof -
  have "u_compileYul (demo_env ys ps) (drop 3 ''/p/contracts/Zero.yul'') ''/p/contracts/Zero.yul''
      demo_config (NativeCompiler ''solc'')
      (st\<lparr>console := console st
            @ [ConsoleLog (''Compiling '' @ drop 3 ''/p/contracts/Zero.yul'' @ ''...'')]\<rparr>)
    = (Inl TypeError, demo_attempted ''/p/contracts/Zero.yul'' ''zero'' st)"
    by (simp add: demo_yul_Zero demo_attempted_def)
  from demo_file_failed [where cf = "u_compileYul (demo_env ys ps)", OF this] show ?thesis .
qed

lemma demo_file_A:
  "compile_file (demo_env ys ps) demo_config demo_paths (u_compileYulp (demo_env ys ps))
     ''/p/contracts/A.yulp'' acc st =
   (Inr (acc @ [(demo_artifact ''A'' ''contracts/A.yulp'' ''0x6002'' ''0x60'' None, [''A''])]),
    demo_after ''/p/contracts/A.yulp'' ''yul:a''
      (demo_artifact ''A'' ''contracts/A.yulp'' ''0x6002'' ''0x60'' None) acc st)"
proof -
  have "u_compileYulp (demo_env ys ps) (drop 3 ''/p/contracts/A.yulp'') ''/p/contracts/A.yulp''
      demo_config (NativeCompiler ''solc'')
      (st\<lparr>console := console st
            @ [ConsoleLog (''Compiling '' @ drop 3 ''/p/contracts/A.yulp'' @ ''...'')]\<rparr>)
    = (Inr \<lparr> c_format = ''hh-sol-artifact-1'', c_sourceName = ''/p/contracts/A.yulp'',
             c_abi = [''function add()'', ''event Done()''],
             c_bytecode = ''0x6002'', c_deployedBytecode = ''0x60'',
             c_functionDebugData = None \<rparr>,
       demo_attempted ''/p/contracts/A.yulp'' ''yul:a'' st)"
    by (simp add: demo_yulp_good [where data = "''a''"] demo_read_def demo_attempted_def)
  from demo_file_ok [where cf = "u_compileYulp (demo_env ys ps)", OF this] show ?thesis
    by (simp add: demo_artifact_of [OF demo_names(3)] demo_after_def demo_attempted_def
        demo_artifact_def)
qed

lemma demo_file_C:
  "compile_file (demo_env ys ps) demo_config demo_paths (u_compileYulp (demo_env ys ps))
     ''/p/contracts/C.yulp'' acc st =
   (Inr (acc @ [(demo_artifact ''C'' ''contracts/C.yulp'' ''0x6002'' ''0x60'' None, [''C''])]),
    demo_after ''/p/contracts/C.yulp'' ''yul:c''
      (demo_artifact ''C'' ''contracts/C.yulp'' ''0x6002'' ''0x60'' None) acc st)"
proof -
  have "u_compileYulp (demo_env ys ps) (drop 3 ''/p/contracts/C.yulp'') ''/p/contracts/C.yulp''
      demo_config (NativeCompiler ''solc'')
      (st\<lparr>console := console st
            @ [ConsoleLog (''Compiling '' @ drop 3 ''/p/contracts/C.yulp'' @ ''...'')]\<rparr>)
    = (Inr \<lparr> c_format = ''hh-sol-artifact-1'', c_sourceName = ''/p/contracts/C.yulp'',
             c_abi = [''function add()'', ''event Done()''],
             c_bytecode = ''0x6002'', c_deployedBytecode = ''0x60'',
             c_functionDebugData = None \<rparr>,
       demo_attempted ''/p/contracts/C.yulp'' ''yul:c'' st)"
    by (simp add: demo_yulp_good [where data = "''c''"] demo_read_def demo_attempted_def)
  from demo_file_ok [where cf = "u_compileYulp (demo_env ys ps)", OF this] show ?thesis
    by (simp add: demo_artifact_of [OF demo_names(4)] demo_after_def demo_attempted_def
        demo_artifact_def)
qed

lemma demo_file_B:
  "compile_file (demo_env ys ps) demo_config demo_paths (u_compileYulp (demo_env ys ps))
     ''/p/contracts/B.yulp'' acc st =
   (Inl (Thrown ''SyntaxError''),
    st\<lparr>console := console st @ [ConsoleLog ''Compiling contracts/B.yulp...'']\<rparr>)"
proof -
  have "u_compileYulp (demo_env ys ps) (drop 3 ''/p/contracts/B.yulp'') ''/p/contracts/B.yulp''
      demo_config (NativeCompiler ''solc'')
      (st\<lparr>console := console st
            @ [ConsoleLog (''Compiling '' @ drop 3 ''/p/contracts/B.yulp'' @ ''...'')]\<rparr>)
    = (Inl (Thrown ''SyntaxError''),
       st\<lparr>console := console st @ [ConsoleLog ''Compiling contracts/B.yulp...'']\<rparr>)"
    by (simp add: demo_yulp_B)
  from demo_file_failed [where cf = "u_compileYulp (demo_env ys ps)", OF this] show ?thesis .
qed

section \<open>Artifacts handed to the artifact store\<close>


section \<open>Failures\<close>

text \<open>
  C2, as stated, fails: with the sugared-dialect files \<^verbatim>\<open>B.yulp\<close> (which the transpiler
  rejects) and \<^verbatim>\<open>C.yulp\<close> discovered in this order, the run ends with the transpiler's
  error and nothing has been handed to the artifact store, although \<^verbatim>\<open>C.yulp\<close> on its
  own compiles and is stored.
\<close>

theorem failure_skips_later_files:
  "fst (compileYulp (demo_env [] [''/p/contracts/B.yulp'', ''/p/contracts/C.yulp''])
          demo_config demo_paths empty_state) = Inl (Thrown ''SyntaxError'')
   \<and> saved (snd (compileYulp (demo_env [] [''/p/contracts/B.yulp'', ''/p/contracts/C.yulp''])
                   demo_config demo_paths empty_state)) = []
   \<and> saved (snd (compileYulp (demo_env [] [''/p/contracts/C.yulp''])
                   demo_config demo_paths empty_state))
       = [demo_artifact ''C'' ''contracts/C.yulp'' ''0x6002'' ''0x60'' None]"
  by (simp add: compileYulp_def demo_sources demo_file_B demo_file_C demo_after_fields
      empty_state_def)

text \<open>
  C2, amended: a fatal failure while processing one file ends the run. The run returns
  that file's error, its final state is the state at the failure (so no later file is
  processed, whatever the later files are), and the artifact store holds exactly the
  artifacts of the files before the failing one.
\<close>

theorem failure_ends_run:
  "(getYulSources env paths = pre @ src # post
      \<and> fst (compile_files env yulConfig paths (u_compileYul env) pre [] st) = Inr acc
      \<and> fst (compile_file env yulConfig paths (u_compileYul env) src acc
                (snd (compile_files env yulConfig paths (u_compileYul env) pre [] st))) = Inl e
    \<longrightarrow> compileYul env yulConfig paths st =
          (Inl e, snd (compile_file env yulConfig paths (u_compileYul env) src acc
                         (snd (compile_files env yulConfig paths (u_compileYul env) pre [] st))))
        \<and> saved (snd (compileYul env yulConfig paths st)) = saved st @ map fst acc)
   \<and> (getYulpSources env paths = pre @ src # post
      \<and> fst (compile_files env yulConfig paths (u_compileYulp env) pre [] st) = Inr acc
      \<and> fst (compile_file env yulConfig paths (u_compileYulp env) src acc
                (snd (compile_files env yulConfig paths (u_compileYulp env) pre [] st))) = Inl e
    \<longrightarrow> compileYulp env yulConfig paths st =
          (Inl e, snd (compile_file env yulConfig paths (u_compileYulp env) src acc
                         (snd (compile_files env yulConfig paths (u_compileYulp env) pre [] st))))
        \<and> saved (snd (compileYulp env yulConfig paths st)) = saved st @ map fst acc)"
proof (intro conjI impI; elim conjE)
  assume found: "getYulSources env paths = pre @ src # post"
    and before: "fst (compile_files env yulConfig paths (u_compileYul env) pre [] st) = Inr acc"
    and failed: "fst (compile_file env yulConfig paths (u_compileYul env) src acc
                (snd (compile_files env yulConfig paths (u_compileYul env) pre [] st))) = Inl e"
  show run: "compileYul env yulConfig paths st =
          (Inl e, snd (compile_file env yulConfig paths (u_compileYul env) src acc
                         (snd (compile_files env yulConfig paths (u_compileYul env) pre [] st))))"
    unfolding compileYul_def found by (rule compile_files_abort [OF before failed])
  show "saved (snd (compileYul env yulConfig paths st)) = saved st @ map fst acc"
    unfolding run snd_conv
    by (rule compile_files_abort_saved [where cf = "u_compileYul env",
          OF u_compileYul_saved before failed])
next
  assume found: "getYulpSources env paths = pre @ src # post"
    and before: "fst (compile_files env yulConfig paths (u_compileYulp env) pre [] st) = Inr acc"
    and failed: "fst (compile_file env yulConfig paths (u_compileYulp env) src acc
                (snd (compile_files env yulConfig paths (u_compileYulp env) pre [] st))) = Inl e"
  show run: "compileYulp env yulConfig paths st =
          (Inl e, snd (compile_file env yulConfig paths (u_compileYulp env) src acc
                         (snd (compile_files env yulConfig paths (u_compileYulp env) pre [] st))))"
    unfolding compileYulp_def found by (rule compile_files_abort [OF before failed])
  show "saved (snd (compileYulp env yulConfig paths st)) = saved st @ map fst acc"
    unfolding run snd_conv
    by (rule compile_files_abort_saved [where cf = "u_compileYulp env",
          OF u_compileYulp_saved before failed])
qed

theorem failure_ends_run_witness:
  "getYulSources (demo_env [''/p/contracts/Foo.yul'', ''/p/contracts/Zero.yul'',
                              ''/p/contracts/Bar.yul''] []) demo_paths
     = [''/p/contracts/Foo.yul''] @ ''/p/contracts/Zero.yul'' # [''/p/contracts/Bar.yul'']
   \<and> fst (compileYul (demo_env [''/p/contracts/Foo.yul'', ''/p/contracts/Zero.yul'',
                                 ''/p/contracts/Bar.yul''] []) demo_config demo_paths empty_state)
       = Inl TypeError
   \<and> saved (snd (compileYul (demo_env [''/p/contracts/Foo.yul'', ''/p/contracts/Zero.yul'',
                                 ''/p/contracts/Bar.yul''] []) demo_config demo_paths empty_state))
       = [demo_artifact ''Foo'' ''contracts/Foo.yul'' ''0x6001'' ''0x'' None]
   \<and> getYulpSources (demo_env [] [''/p/contracts/A.yulp'', ''/p/contracts/B.yulp'',
                                  ''/p/contracts/C.yulp'']) demo_paths
     = [''/p/contracts/A.yulp''] @ ''/p/contracts/B.yulp'' # [''/p/contracts/C.yulp'']
   \<and> fst (compileYulp (demo_env [] [''/p/contracts/A.yulp'', ''/p/contracts/B.yulp'',
                                     ''/p/contracts/C.yulp'']) demo_config demo_paths empty_state)
       = Inl (Thrown ''SyntaxError'')
   \<and> saved (snd (compileYulp (demo_env [] [''/p/contracts/A.yulp'', ''/p/contracts/B.yulp'',
                                     ''/p/contracts/C.yulp'']) demo_config demo_paths empty_state))
       = [demo_artifact ''A'' ''contracts/A.yulp'' ''0x6002'' ''0x60'' None]"
proof -
  let ?ys = "[''/p/contracts/Foo.yul'', ''/p/contracts/Zero.yul'', ''/p/contracts/Bar.yul'']"
  let ?ps = "[''/p/contracts/A.yulp'', ''/p/contracts/B.yulp'', ''/p/contracts/C.yulp'']"
  let ?foo = "demo_artifact ''Foo'' ''contracts/Foo.yul'' ''0x6001'' ''0x'' None"
  let ?a = "demo_artifact ''A'' ''contracts/A.yulp'' ''0x6002'' ''0x60'' None"
  have y1: "getYulSources (demo_env ?ys []) demo_paths
      = [''/p/contracts/Foo.yul''] @ ''/p/contracts/Zero.yul'' # [''/p/contracts/Bar.yul'']"
    by (simp add: demo_sources)
  have y2: "fst (compile_files (demo_env ?ys []) demo_config demo_paths
      (u_compileYul (demo_env ?ys [])) [''/p/contracts/Foo.yul''] [] empty_state)
      = Inr [(?foo, [''Foo''])]"
    by (simp add: demo_file_Foo)
  have y3: "fst (compile_file (demo_env ?ys []) demo_config demo_paths
      (u_compileYul (demo_env ?ys [])) ''/p/contracts/Zero.yul'' [(?foo, [''Foo''])]
      (snd (compile_files (demo_env ?ys []) demo_config demo_paths
         (u_compileYul (demo_env ?ys [])) [''/p/contracts/Foo.yul''] [] empty_state)))
      = Inl TypeError"
    by (simp add: demo_file_Zero)
  have p1: "getYulpSources (demo_env [] ?ps) demo_paths
      = [''/p/contracts/A.yulp''] @ ''/p/contracts/B.yulp'' # [''/p/contracts/C.yulp'']"
    by (simp add: demo_sources)
  have p2: "fst (compile_files (demo_env [] ?ps) demo_config demo_paths
      (u_compileYulp (demo_env [] ?ps)) [''/p/contracts/A.yulp''] [] empty_state)
      = Inr [(?a, [''A''])]"
    by (simp add: demo_file_A)
  have p3: "fst (compile_file (demo_env [] ?ps) demo_config demo_paths
      (u_compileYulp (demo_env [] ?ps)) ''/p/contracts/B.yulp'' [(?a, [''A''])]
      (snd (compile_files (demo_env [] ?ps) demo_config demo_paths
         (u_compileYulp (demo_env [] ?ps)) [''/p/contracts/A.yulp''] [] empty_state)))
      = Inl (Thrown ''SyntaxError'')"
    by (simp add: demo_file_B)
  have e: "saved empty_state = []"
    by (simp add: empty_state_def)
  from failure_ends_run [where env = "demo_env ?ys []" and paths = demo_paths
      and yulConfig = demo_config and st = empty_state and pre = "[''/p/contracts/Foo.yul'']"
      and src = "''/p/contracts/Zero.yul''" and post = "[''/p/contracts/Bar.yul'']"
      and acc = "[(?foo, [''Foo''])]" and e = TypeError] y1 y2 y3
  have "compileYul (demo_env ?ys []) demo_config demo_paths empty_state =
      (Inl TypeError,
       snd (compile_file (demo_env ?ys []) demo_config demo_paths
         (u_compileYul (demo_env ?ys [])) ''/p/contracts/Zero.yul'' [(?foo, [''Foo''])]
         (snd (compile_files (demo_env ?ys []) demo_config demo_paths
            (u_compileYul (demo_env ?ys [])) [''/p/contracts/Foo.yul''] [] empty_state))))
    \<and> saved (snd (compileYul (demo_env ?ys []) demo_config demo_paths empty_state))
        = saved empty_state @ map fst [(?foo, [''Foo''])]"
    by blast
  note r = this
  have r1: "fst (compileYul (demo_env ?ys []) demo_config demo_paths empty_state) = Inl TypeError"
    using r [THEN conjunct1] by (simp only: fst_conv)
  note r2 = r [THEN conjunct2]
  have yul: "fst (compileYul (demo_env ?ys []) demo_config demo_paths empty_state) = Inl TypeError
      \<and> saved (snd (compileYul (demo_env ?ys []) demo_config demo_paths empty_state)) = [?foo]"
    unfolding r1 r2 e by simp
  from failure_ends_run [where env = "demo_env [] ?ps" and paths = demo_paths
      and yulConfig = demo_config and st = empty_state and pre = "[''/p/contracts/A.yulp'']"
      and src = "''/p/contracts/B.yulp''" and post = "[''/p/contracts/C.yulp'']"
      and acc = "[(?a, [''A''])]" and e = "Thrown ''SyntaxError''"] p1 p2 p3
  have "compileYulp (demo_env [] ?ps) demo_config demo_paths empty_state =
      (Inl (Thrown ''SyntaxError''),
       snd (compile_file (demo_env [] ?ps) demo_config demo_paths
         (u_compileYulp (demo_env [] ?ps)) ''/p/contracts/B.yulp'' [(?a, [''A''])]
         (snd (compile_files (demo_env [] ?ps) demo_config demo_paths
            (u_compileYulp (demo_env [] ?ps)) [''/p/contracts/A.yulp''] [] empty_state))))
    \<and> saved (snd (compileYulp (demo_env [] ?ps) demo_config demo_paths empty_state))
        = saved empty_state @ map fst [(?a, [''A''])]"
    by blast
  note q = this
  have q1: "fst (compileYulp (demo_env [] ?ps) demo_config demo_paths empty_state)
        = Inl (Thrown ''SyntaxError'')"
    using q [THEN conjunct1] by (simp only: fst_conv)
  note q2 = q [THEN conjunct2]
  have yulp: "fst (compileYulp (demo_env [] ?ps) demo_config demo_paths empty_state)
        = Inl (Thrown ''SyntaxError'')
      \<and> saved (snd (compileYulp (demo_env [] ?ps) demo_config demo_paths empty_state)) = [?a]"
    unfolding q1 q2 e by simp
  from y1 p1 yul yulp show ?thesis by simp
qed

lemma demo_file_Z:
  "compile_file (demo_env ys ps) demo_config demo_paths (u_compileYulp (demo_env ys ps))
     ''/p/contracts/Z.yulp'' acc st =
   (Inl TypeError, demo_attempted ''/p/contracts/Z.yulp'' ''yul:z'' st)"
proof -
  let ?source = "\<lparr> results = ''z'',
      signatures = [\<lparr> raw_abi = ''sig'' @ [CHR 0x22] @ ''function add()'' @ [CHR 0x22] \<rparr>],
      topics = [\<lparr> raw_abi = ''topic'' @ [CHR 0x22] @ ''event Done()'' @ [CHR 0x22] \<rparr>] \<rparr>"
  have rd: "readFileSync (demo_env ys ps) ''contracts/Z.yulp'' = Inr ''z''"
    by (simp add: demo_env_fields demo_read_def)
  have tr: "yulp_compile (demo_env ys ps) ''z'' = Inr ?source"
    by (simp add: demo_env_fields demo_yulp_def)
  have ans: "compile_with (demo_env ys ps) (NativeCompiler ''solc'')
      (spec_compiler_input (yulp_print (demo_env ys ps) (results ?source)) (yulDetails demo_config))
      = Inr (demo_output [])"
    by (simp add: demo_compile_with demo_env_fields)
  have "u_compileYulp (demo_env ys ps) (drop 3 ''/p/contracts/Z.yulp'') ''/p/contracts/Z.yulp''
      demo_config (NativeCompiler ''solc'')
      (st\<lparr>console := console st
            @ [ConsoleLog (''Compiling '' @ drop 3 ''/p/contracts/Z.yulp'' @ ''...'')]\<rparr>)
    = (Inl TypeError, demo_attempted ''/p/contracts/Z.yulp'' ''yul:z'' st)"
    by (simp add: u_compileYulp_answered [OF rd tr ans] demo_output_fields demo_env_fields
        demo_attempted_def)
  from demo_file_failed [where cf = "u_compileYulp (demo_env ys ps)", OF this] show ?thesis .
qed




section \<open>Diagnostics do not stop the pipeline\<close>

text \<open>
  C7: for every diagnostics sequence, reporting writes one console call per entry, a
  warning for an entry of severity \<^verbatim>\<open>warning\<close> and an error for every other entry, and
  returns normally. It does not stop the pipeline: whatever the diagnostics are, when the
  backend's output has a contract object to select (and the file could be read, the
  compiler obtained, the source name resolved and the artifact store accepts), the loop
  body produces an artifact and hands it to the artifact store, in both dialects.
\<close>

theorem diagnostics_never_fatal:
  assumes "getCompiler env yulConfig = Inr compiler"
    and "readFileSync env (path_relative_cwd env src) = Inr data"
    and "errors reply = Some ds"
    and "selected_contract reply = Inr c"
    and "localPathToSourceName env (root paths) src = Inr srcName"
    and "\<forall>a. saveArtifactAndDebugFile env a = None"
  shows "checkCompilationErrors filename (Some ds) st0 =
           (Inr (), st0\<lparr>console := console st0 @ map (report filename) ds\<rparr>)
   \<and> (\<forall>d. report filename d =
          (if severity d = ''warning''
           then ConsoleWarn (CHR 0x1B # ''[33m%s'' @ CHR 0x1B # ''[0m'')
                  (''hardhat-yul: warning compiling '' @ filename @ '':'' @ [CHR 0x0A]
                     @ formattedMessage d)
           else ConsoleError (CHR 0x1B # ''[31m%s'' @ CHR 0x1B # ''[0m'')
                  (''hardhat-yul: error compiling '' @ filename @ '':'' @ [CHR 0x0A]
                     @ formattedMessage d)))
   \<and> (compile_with env compiler (spec_compiler_input data (yulDetails yulConfig)) = Inr reply
      \<longrightarrow> (\<exists>a. fst (compile_file env yulConfig paths (u_compileYul env) src acc st)
                  = Inr (acc @ [(a, [contractName a])])
              \<and> saved (snd (compile_file env yulConfig paths (u_compileYul env) src acc st))
                  = saved st @ [a]
              \<and> console (snd (compile_file env yulConfig paths (u_compileYul env) src acc st))
                  = console st
                      @ ConsoleLog (''Compiling '' @ path_relative_cwd env src @ ''...'')
                        # map (report src) ds))
   \<and> (yulp_compile env data = Inr source
        \<and> compile_with env compiler
            (spec_compiler_input (yulp_print env (results source)) (yulDetails yulConfig))
            = Inr reply
      \<longrightarrow> (\<exists>a. fst (compile_file env yulConfig paths (u_compileYulp env) src acc st)
                  = Inr (acc @ [(a, [contractName a])])
              \<and> saved (snd (compile_file env yulConfig paths (u_compileYulp env) src acc st))
                  = saved st @ [a]
              \<and> console (snd (compile_file env yulConfig paths (u_compileYulp env) src acc st))
                  = console st
                      @ ConsoleLog (''Compiling '' @ path_relative_cwd env src @ ''...'')
                        # map (report src) ds))"
proof (intro conjI impI allI; (elim conjE)?)
  show "checkCompilationErrors filename (Some ds) st0 =
           (Inr (), st0\<lparr>console := console st0 @ map (report filename) ds\<rparr>)"
    by (rule checkCompilationErrors_Some)
next
  fix d
  show "report filename d =
          (if severity d = ''warning''
           then ConsoleWarn (CHR 0x1B # ''[33m%s'' @ CHR 0x1B # ''[0m'')
                  (''hardhat-yul: warning compiling '' @ filename @ '':'' @ [CHR 0x0A]
                     @ formattedMessage d)
           else ConsoleError (CHR 0x1B # ''[31m%s'' @ CHR 0x1B # ''[0m'')
                  (''hardhat-yul: error compiling '' @ filename @ '':'' @ [CHR 0x0A]
                     @ formattedMessage d))"
    by (simp add: report_def)
next
  let ?cwd = "path_relative_cwd env src"
  let ?st1 = "st\<lparr>console := console st @ [ConsoleLog (''Compiling '' @ ?cwd @ ''...'')]\<rparr>"
  assume ans: "compile_with env compiler (spec_compiler_input data (yulDetails yulConfig))
               = Inr reply"
  obtain out st2
    where run: "u_compileYul env ?cwd src yulConfig compiler ?st1 = (Inr out, st2)"
      and st2: "saved st2 = saved st"
               "console st2 = console st @ ConsoleLog (''Compiling '' @ ?cwd @ ''...'')
                                # map (report src) ds"
    by (simp add: u_compileYul_answered [OF assms(2) ans] assms(3,4))
  let ?a = "getArtifactFromYulOutput srcName out"
  have "saveArtifactAndDebugFile env ?a = None"
    using assms(6) by simp
  from compile_file_success [where cf = "u_compileYul env", OF assms(1) refl run assms(5) this]
  have "fst (compile_file env yulConfig paths (u_compileYul env) src acc st)
          = Inr (acc @ [(?a, [contractName ?a])])
      \<and> saved (snd (compile_file env yulConfig paths (u_compileYul env) src acc st))
          = saved st @ [?a]
      \<and> console (snd (compile_file env yulConfig paths (u_compileYul env) src acc st))
          = console st @ ConsoleLog (''Compiling '' @ ?cwd @ ''...'') # map (report src) ds"
    by (simp add: st2)
  then show "\<exists>a. fst (compile_file env yulConfig paths (u_compileYul env) src acc st)
                  = Inr (acc @ [(a, [contractName a])])
              \<and> saved (snd (compile_file env yulConfig paths (u_compileYul env) src acc st))
                  = saved st @ [a]
              \<and> console (snd (compile_file env yulConfig paths (u_compileYul env) src acc st))
                  = console st
                      @ ConsoleLog (''Compiling '' @ path_relative_cwd env src @ ''...'')
                        # map (report src) ds"
    by blast
next
  let ?cwd = "path_relative_cwd env src"
  let ?st1 = "st\<lparr>console := console st @ [ConsoleLog (''Compiling '' @ ?cwd @ ''...'')]\<rparr>"
  assume tr: "yulp_compile env data = Inr source"
    and ans: "compile_with env compiler
                (spec_compiler_input (yulp_print env (results source)) (yulDetails yulConfig))
              = Inr reply"
  obtain out st2
    where run: "u_compileYulp env ?cwd src yulConfig compiler ?st1 = (Inr out, st2)"
      and st2: "saved st2 = saved st"
               "console st2 = console st @ ConsoleLog (''Compiling '' @ ?cwd @ ''...'')
                                # map (report src) ds"
    by (simp add: u_compileYulp_answered [OF assms(2) tr ans] assms(3,4))
  let ?a = "getArtifactFromYulOutput srcName out"
  have "saveArtifactAndDebugFile env ?a = None"
    using assms(6) by simp
  from compile_file_success [where cf = "u_compileYulp env", OF assms(1) refl run assms(5) this]
  have "fst (compile_file env yulConfig paths (u_compileYulp env) src acc st)
          = Inr (acc @ [(?a, [contractName ?a])])
      \<and> saved (snd (compile_file env yulConfig paths (u_compileYulp env) src acc st))
          = saved st @ [?a]
      \<and> console (snd (compile_file env yulConfig paths (u_compileYulp env) src acc st))
          = console st @ ConsoleLog (''Compiling '' @ ?cwd @ ''...'') # map (report src) ds"
    by (simp add: st2)
  then show "\<exists>a. fst (compile_file env yulConfig paths (u_compileYulp env) src acc st)
                  = Inr (acc @ [(a, [contractName a])])
              \<and> saved (snd (compile_file env yulConfig paths (u_compileYulp env) src acc st))
                  = saved st @ [a]
              \<and> console (snd (compile_file env yulConfig paths (u_compileYulp env) src acc st))
                  = console st
                      @ ConsoleLog (''Compiling '' @ path_relative_cwd env src @ ''...'')
                        # map (report src) ds"
    by blast
qed

theorem diagnostics_never_fatal_witness:
  "getCompiler (demo_env [] []) demo_config = Inr (NativeCompiler ''solc'')
   \<and> readFileSync (demo_env [] []) (path_relative_cwd (demo_env [] []) ''/p/contracts/Foo.yul'')
       = Inr ''foo''
   \<and> readFileSync (demo_env [] []) (path_relative_cwd (demo_env [] []) ''/p/contracts/A.yulp'')
       = Inr ''a''
   \<and> errors (demo_output [(''Foo'', demo_contract_foo)]) = Some demo_diagnostics
   \<and> map severity demo_diagnostics = [''warning'', ''error'']
   \<and> selected_contract (demo_output [(''Foo'', demo_contract_foo)]) = Inr demo_contract_foo
   \<and> localPathToSourceName (demo_env [] []) (root demo_paths) ''/p/contracts/Foo.yul''
       = Inr ''contracts/Foo.yul''
   \<and> localPathToSourceName (demo_env [] []) (root demo_paths) ''/p/contracts/A.yulp''
       = Inr ''contracts/A.yulp''
   \<and> (\<forall>a. saveArtifactAndDebugFile (demo_env [] []) a = None)
   \<and> compile_with (demo_env [] []) (NativeCompiler ''solc'')
         (spec_compiler_input ''foo'' (yulDetails demo_config))
       = Inr (demo_output [(''Foo'', demo_contract_foo)])
   \<and> compile_with (demo_env [] []) (NativeCompiler ''solc'')
         (spec_compiler_input ''yul:a'' (yulDetails demo_config))
       = Inr (demo_output [(''Obj'', demo_contract_full), (''Other'', demo_contract_other)])
   \<and> console (snd (checkCompilationErrors ''F.yul'' (Some demo_diagnostics) empty_state))
       = [ConsoleWarn (CHR 0x1B # ''[33m%s'' @ CHR 0x1B # ''[0m'')
            (''hardhat-yul: warning compiling F.yul:'' @ [CHR 0x0A]
               @ ''Warning: Yul is still experimental.''),
          ConsoleError (CHR 0x1B # ''[31m%s'' @ CHR 0x1B # ''[0m'')
            (''hardhat-yul: error compiling F.yul:'' @ [CHR 0x0A] @ ''Error: unused.'')]
   \<and> saved (snd (compile_file (demo_env [] []) demo_config demo_paths
                    (u_compileYul (demo_env [] [])) ''/p/contracts/Foo.yul'' [] empty_state))
       = [demo_artifact ''Foo'' ''contracts/Foo.yul'' ''0x6001'' ''0x'' None]
   \<and> saved (snd (compile_file (demo_env [] []) demo_config demo_paths
                    (u_compileYulp (demo_env [] [])) ''/p/contracts/A.yulp'' [] empty_state))
       = [demo_artifact ''A'' ''contracts/A.yulp'' ''0x6002'' ''0x60'' None]"
proof -
  let ?D = "demo_env [] [] :: string env"
  let ?one = "[(''Foo'', demo_contract_foo)]"
  let ?two = "[(''Obj'', demo_contract_full), (''Other'', demo_contract_other)]"
  let ?source = "\<lparr> results = ''a'',
      signatures = [\<lparr> raw_abi = ''sig'' @ [CHR 0x22] @ ''function add()'' @ [CHR 0x22] \<rparr>],
      topics = [\<lparr> raw_abi = ''topic'' @ [CHR 0x22] @ ''event Done()'' @ [CHR 0x22] \<rparr>] \<rparr>"
  have comp: "getCompiler ?D demo_config = Inr (NativeCompiler ''solc'')"
    by (rule demo_getCompiler)
  have rd1: "readFileSync ?D (path_relative_cwd ?D ''/p/contracts/Foo.yul'') = Inr ''foo''"
    by (simp add: demo_env_fields demo_read_def)
  have rd2: "readFileSync ?D (path_relative_cwd ?D ''/p/contracts/A.yulp'') = Inr ''a''"
    by (simp add: demo_env_fields demo_read_def)
  have er1: "errors (demo_output ?one) = Some demo_diagnostics"
    and er2: "errors (demo_output ?two) = Some demo_diagnostics"
    by (simp_all add: demo_output_fields)
  have sev: "map severity demo_diagnostics = [''warning'', ''error'']"
    by (simp add: demo_diagnostics_def)
  have sel1: "selected_contract (demo_output ?one) = Inr demo_contract_foo"
    and sel2: "selected_contract (demo_output ?two) = Inr demo_contract_full"
    by (simp_all add: demo_output_fields)
  have loc1: "localPathToSourceName ?D (root demo_paths) ''/p/contracts/Foo.yul''
              = Inr ''contracts/Foo.yul''"
    and loc2: "localPathToSourceName ?D (root demo_paths) ''/p/contracts/A.yulp''
              = Inr ''contracts/A.yulp''"
    by (simp_all add: demo_env_fields demo_paths_def)
  have sv: "\<forall>a. saveArtifactAndDebugFile ?D a = None"
    by (simp add: demo_env_fields)
  have ans1: "compile_with ?D (NativeCompiler ''solc'')
      (spec_compiler_input ''foo'' (yulDetails demo_config)) = Inr (demo_output ?one)"
    by (simp add: demo_compile_with)
  have tr: "yulp_compile ?D ''a'' = Inr ?source"
    by (simp add: demo_env_fields demo_yulp_def)
  have ans2: "compile_with ?D (NativeCompiler ''solc'')
      (spec_compiler_input (yulp_print ?D (results ?source)) (yulDetails demo_config))
      = Inr (demo_output ?two)"
    by (simp add: demo_compile_with demo_env_fields)
  have ans2': "compile_with ?D (NativeCompiler ''solc'')
      (spec_compiler_input ''yul:a'' (yulDetails demo_config)) = Inr (demo_output ?two)"
    by (simp add: demo_compile_with)
  have e: "saved empty_state = []" "console empty_state = []"
    by (simp_all add: empty_state_def)
  note yul = diagnostics_never_fatal [where env = ?D and yulConfig = demo_config
      and paths = demo_paths and src = "''/p/contracts/Foo.yul''" and acc = "[]"
      and st = empty_state and st0 = empty_state and filename = "''F.yul''"
      and source = ?source, OF comp rd1 er1 sel1 loc1 sv]
  note yulp = diagnostics_never_fatal [where env = ?D and yulConfig = demo_config
      and paths = demo_paths and src = "''/p/contracts/A.yulp''" and acc = "[]"
      and st = empty_state and st0 = empty_state and filename = "''F.yul''"
      and source = ?source, OF comp rd2 er2 sel2 loc2 sv]
  have rep: "console (snd (checkCompilationErrors ''F.yul'' (Some demo_diagnostics) empty_state))
       = [ConsoleWarn (CHR 0x1B # ''[33m%s'' @ CHR 0x1B # ''[0m'')
            (''hardhat-yul: warning compiling F.yul:'' @ [CHR 0x0A]
               @ ''Warning: Yul is still experimental.''),
          ConsoleError (CHR 0x1B # ''[31m%s'' @ CHR 0x1B # ''[0m'')
            (''hardhat-yul: error compiling F.yul:'' @ [CHR 0x0A] @ ''Error: unused.'')]"
    using yul [THEN conjunct1] yul [THEN conjunct2, THEN conjunct1]
    by (simp add: e demo_diagnostics_def)
  have "\<exists>a. fst (compile_file ?D demo_config demo_paths (u_compileYul ?D)
                   ''/p/contracts/Foo.yul'' [] empty_state) = Inr ([] @ [(a, [contractName a])])
          \<and> saved (snd (compile_file ?D demo_config demo_paths (u_compileYul ?D)
                   ''/p/contracts/Foo.yul'' [] empty_state)) = saved empty_state @ [a]"
    using yul [THEN conjunct2, THEN conjunct2, THEN conjunct1] ans1 by blast
  then have s1: "saved (snd (compile_file ?D demo_config demo_paths (u_compileYul ?D)
                   ''/p/contracts/Foo.yul'' [] empty_state))
       = [demo_artifact ''Foo'' ''contracts/Foo.yul'' ''0x6001'' ''0x'' None]"
    by (auto simp: demo_file_Foo e)
  have "\<exists>a. fst (compile_file ?D demo_config demo_paths (u_compileYulp ?D)
                   ''/p/contracts/A.yulp'' [] empty_state) = Inr ([] @ [(a, [contractName a])])
          \<and> saved (snd (compile_file ?D demo_config demo_paths (u_compileYulp ?D)
                   ''/p/contracts/A.yulp'' [] empty_state)) = saved empty_state @ [a]"
    using yulp [THEN conjunct2, THEN conjunct2, THEN conjunct2] tr ans2 by blast
  then have s2: "saved (snd (compile_file ?D demo_config demo_paths (u_compileYulp ?D)
                   ''/p/contracts/A.yulp'' [] empty_state))
       = [demo_artifact ''A'' ''contracts/A.yulp'' ''0x6002'' ''0x60'' None]"
    by (auto simp: demo_file_A e)
  from comp rd1 rd2 er1 sev sel1 loc1 loc2 sv ans1 ans2' rep s1 s2 show ?thesis
    by blast
qed

section \<open>What the stored artifact loses\<close>

text \<open>
  C1 does not hold of the code. For the sugared-dialect file \<^verbatim>\<open>A.yulp\<close>, which declares
  one function signature and one event topic, \<open>u_compileYulp\<close> builds the two fragments,
  each stripped of its framing characters; but \<open>getArtifactFromYulOutput\<close> sets the ABI of
  every artifact to the empty array, so the artifact handed to the artifact store has no
  fragment at all.
\<close>

theorem sugared_abi_not_stored:
  "fst (u_compileYulp (demo_env [] [''/p/contracts/A.yulp'']) ''contracts/A.yulp''
          ''/p/contracts/A.yulp'' demo_config (NativeCompiler ''solc'') empty_state)
     = Inr \<lparr> c_format = ''hh-sol-artifact-1'', c_sourceName = ''/p/contracts/A.yulp'',
             c_abi = [''function add()'', ''event Done()''],
             c_bytecode = ''0x6002'', c_deployedBytecode = ''0x60'',
             c_functionDebugData = None \<rparr>
   \<and> map abi (saved (snd (compileYulp (demo_env [] [''/p/contracts/A.yulp''])
                            demo_config demo_paths empty_state))) = [[]]
   \<and> abi (getArtifactFromYulOutput srcName out) = []"
  by (simp add: demo_yulp_good [where data = "''a''"] demo_read_def compileYulp_def
      demo_sources demo_file_A demo_after_fields empty_state_def demo_artifact_def
      artifact_of_compiled)

text \<open>
  C9 does not hold of the code for the sugared dialect. The backend reports the same
  contract object, with function debug data, for the base-dialect file \<^verbatim>\<open>Bar.yul\<close> and for
  the sugared-dialect file \<^verbatim>\<open>A.yulp\<close>. The artifact stored for \<^verbatim>\<open>Bar.yul\<close> carries the
  debug data; the one stored for \<^verbatim>\<open>A.yulp\<close> has none, because the object returned by
  \<open>u_compileYulp\<close> has no debug data property.
\<close>

theorem sugared_debug_data_not_stored:
  "compile_with (demo_env [] [''/p/contracts/A.yulp'']) (NativeCompiler ''solc'')
       (spec_compiler_input ''yul:a'' (yulDetails demo_config))
     = Inr (demo_output [(''Obj'', demo_contract_full), (''Other'', demo_contract_other)])
   \<and> map_option bc_functionDebugData (evm_deployedBytecode (evm demo_contract_full))
       = Some (Some demo_debug)
   \<and> map functionDebugData
        (saved (snd (compileYulp (demo_env [] [''/p/contracts/A.yulp''])
                       demo_config demo_paths empty_state))) = [None]
   \<and> map functionDebugData
        (saved (snd (compileYul (demo_env [''/p/contracts/Bar.yul''] [])
                       demo_config demo_paths empty_state))) = [Some demo_debug]"
  by (simp add: demo_compile_with demo_contract_full_def compileYulp_def compileYul_def
      demo_sources demo_file_A demo_file_Bar demo_after_fields empty_state_def demo_artifact_def)

end
